theory Spec2Isabelle
  imports Main "HOL-Library.Word" "HOL-Library.AList" "HOL-Library.Multiset"
    "HOL-Library.Char_ord" "HOL-Library.List_Lexorder" "HOL-Library.Log_Nat"
begin

section \<open>JSON documents and Go interface values\<close>

text \<open>
  A number of a JSON document is kept as its literal: \<open>IntLit n\<close> is written with digits
  only, \<open>DecLit m e\<close> is written with a fraction or an exponent and has the value
  \<open>m * 10 ^ e\<close>. Only a literal of the first kind is accepted for a Go integer.
\<close>

datatype number =
    IntLit int
  | DecLit int int

text \<open>A JSON document, as \<^verbatim>\<open>encoding/json\<close> reads and writes it.\<close>

datatype json =
    JNull
  | JBool bool
  | JNum number
  | JStr string
  | JArr "json list"
  | JObj "(string \<times> json) list"

text \<open>
  A Go \<^verbatim>\<open>interface{}\<close> field is modelled by the JSON image of the value it holds:
  \<open>None\<close> is the nil interface, \<open>Some v\<close> a non-nil value that marshals to \<open>v\<close>.
  \<open>Some JNull\<close> is a non-nil interface whose content marshals to \<^verbatim>\<open>null\<close>
  (a nil pointer of a concrete type). A \<^verbatim>\<open>json.RawMessage\<close> is modelled the same
  way: \<open>None\<close> is the empty byte slice, \<open>Some v\<close> the raw text of \<open>v\<close>.
\<close>

type_synonym iface = "json option"

subsection \<open>Numbers as float64\<close>

text \<open>
  A number decoded into an \<^verbatim>\<open>interface{}\<close> is stored as a \<^verbatim>\<open>float64\<close>.
  \<open>Float64 m e\<close> is the finite value \<open>m * 2 ^ e\<close>, with \<open>2 ^ 52 \<le> \<bar>m\<bar> < 2 ^ 53\<close> and
  \<open>- 1074 \<le> e \<le> 971\<close>, or a smaller \<open>m\<close> with \<open>e = - 1074\<close>, or \<open>Float64 0 0\<close>.
  The sign of zero is not kept.
\<close>

datatype float64 = Float64 int int

text \<open>The literal as a fraction of two naturals, without its sign.\<close>

fun fraction :: "number \<Rightarrow> int \<times> int" where
  "fraction (IntLit n) = (\<bar>n\<bar>, 1)"
| "fraction (DecLit m e) = (if 0 \<le> e then (\<bar>m\<bar> * 10 ^ nat e, 1) else (\<bar>m\<bar>, 10 ^ nat (- e)))"

fun negative :: "number \<Rightarrow> bool" where
  "negative (IntLit n) = (n < 0)"
| "negative (DecLit m e) = (m < 0)"

text \<open>
  \<^verbatim>\<open>strconv.ParseFloat\<close>: the float64 nearest to the literal, the one with the even
  mantissa when two are equally near; \<open>None\<close> when the literal is out of range.
  For \<open>p / q\<close> positive, \<open>E\<close> is the integer part of its binary logarithm.
\<close>

definition float64_of :: "number \<Rightarrow> float64 option" where
  "float64_of x =
     (case fraction x of (p, q) \<Rightarrow>
        if p = 0 then Some (Float64 0 0)
        else
          let d = bitlen p - bitlen q;
              E = (if (if 0 \<le> d then q * 2 ^ nat d \<le> p else q \<le> p * 2 ^ nat (- d)) then d else d - 1);
              e = max (E - 52) (- 1074);
              P = (if 0 \<le> e then p else p * 2 ^ nat (- e));
              Q = (if 0 \<le> e then q * 2 ^ nat e else q);
              fl = P div Q;
              r = P mod Q;
              m = (if Q < 2 * r \<or> (2 * r = Q \<and> odd fl) then fl + 1 else fl);
              e = (if m = 2 ^ 53 then e + 1 else e);
              m = (if m = 2 ^ 53 then 2 ^ 52 else m)
          in if 971 < e then None
             else if m = 0 then Some (Float64 0 0)
             else Some (Float64 (if negative x then - m else m) e))"

section \<open>Package jsonrpc: wire types\<close>

definition ErrorParse :: "64 word" where "ErrorParse = - 32700"
definition ErrorInvalidRequest :: "64 word" where "ErrorInvalidRequest = - 32600"
definition ErrorMethodNotFound :: "64 word" where "ErrorMethodNotFound = - 32601"
definition ErrorInvalidParams :: "64 word" where "ErrorInvalidParams = - 32602"
definition ErrorInternal :: "64 word" where "ErrorInternal = - 32603"

record Request =
  req_JSONRPC :: string
  req_Method :: string
  req_Params :: "json option"
  req_ID :: iface

record Error =
  Code :: "64 word"
  Message :: string
  Data :: iface

record Response =
  resp_JSONRPC :: string
  resp_Result :: iface
  resp_Error :: "Error option"
  resp_ID :: iface

definition IsNotification :: "Request \<Rightarrow> bool" where
  "IsNotification r = (req_ID r = None)"

text \<open>\<^verbatim>\<open>Validate\<close> returns nil (\<open>None\<close>) or a pointer to an \<^verbatim>\<open>Error\<close>.\<close>

definition Validate :: "Request \<Rightarrow> Error option" where
  "Validate r =
     (if req_JSONRPC r \<noteq> ''2.0'' then
        Some \<lparr>Code = ErrorInvalidRequest, Message = ''Invalid JSON-RPC version'', Data = None\<rparr>
      else if req_Method r = [] then
        Some \<lparr>Code = ErrorInvalidRequest, Message = ''Method is required'', Data = None\<rparr>
      else None)"

definition NewResponse :: "iface \<Rightarrow> iface \<Rightarrow> Error option \<Rightarrow> Response" where
  "NewResponse i res err =
     \<lparr>resp_JSONRPC = ''2.0'', resp_Result = res, resp_Error = err, resp_ID = i\<rparr>"

definition NewErrorResponse :: "iface \<Rightarrow> Error \<Rightarrow> Response" where
  "NewErrorResponse i err = NewResponse i None (Some err)"

definition NewSuccessResponse :: "iface \<Rightarrow> iface \<Rightarrow> Response" where
  "NewSuccessResponse i res = NewResponse i res None"

text \<open>
  Modelled from the spec: the five constructors \<^verbatim>\<open>NewParseError\<close>,
  \<^verbatim>\<open>NewInvalidRequestError\<close>, \<^verbatim>\<open>NewMethodNotFoundError\<close>,
  \<^verbatim>\<open>NewInvalidParamsError\<close> and \<^verbatim>\<open>NewInternalError\<close> are called by the
  sources but their file is not among them. The spec fixes the taxonomy
  (Parse -32700, InvalidRequest -32600, MethodNotFound -32601, InvalidParams -32602,
  Internal -32603) and the shape \<^verbatim>\<open>{code, message, data?}\<close>; each constructor
  builds that shape from a message and a data value.
\<close>

definition NewParseError :: "string \<Rightarrow> iface \<Rightarrow> Error" where
  "NewParseError m d = \<lparr>Code = ErrorParse, Message = m, Data = d\<rparr>"

definition NewMethodNotFoundError :: "string \<Rightarrow> iface \<Rightarrow> Error" where
  "NewMethodNotFoundError m d = \<lparr>Code = ErrorMethodNotFound, Message = m, Data = d\<rparr>"

definition NewInvalidParamsError :: "string \<Rightarrow> iface \<Rightarrow> Error" where
  "NewInvalidParamsError m d = \<lparr>Code = ErrorInvalidParams, Message = m, Data = d\<rparr>"

definition NewInternalError :: "string \<Rightarrow> iface \<Rightarrow> Error" where
  "NewInternalError m d = \<lparr>Code = ErrorInternal, Message = m, Data = d\<rparr>"

section \<open>Package jsonrpc: the dispatcher\<close>

text \<open>
  A \<^verbatim>\<open>Handler\<close> is a Go closure over a pointer to the object that owns it, so what
  it computes depends on that object's fields at the time of the call. The model passes
  the object's current value \<open>'st\<close> explicitly. Handlers write to the logger only, which
  is not part of the model.
\<close>

type_synonym 'st Handler = "'st \<Rightarrow> json option \<Rightarrow> iface \<times> Error option"

record 'st rpcServer =
  handlers :: "string \<rightharpoonup> 'st Handler"

definition rpc_NewServer :: "'st rpcServer" where
  "rpc_NewServer = \<lparr>handlers = Map.empty\<rparr>"

definition RegisterMethod :: "string \<Rightarrow> 'st Handler \<Rightarrow> 'st rpcServer \<Rightarrow> 'st rpcServer" where
  "RegisterMethod method h s = s\<lparr>handlers := (handlers s)(method \<mapsto> h)\<rparr>"

text \<open>
  \<^verbatim>\<open>Validate\<close> and every handler return a \<^verbatim>\<open>*Error\<close>, so \<^verbatim>\<open>errors.As\<close>
  succeeds whenever the error is non-nil and the two \<^verbatim>\<open>NewInternalError\<close>
  fallbacks of the source are not reachable.
\<close>

definition HandleRequest :: "'st rpcServer \<Rightarrow> 'st \<Rightarrow> Request \<Rightarrow> Response" where
  "HandleRequest s st req =
     (case Validate req of
        Some jsonErr \<Rightarrow> NewErrorResponse (req_ID req) jsonErr
      | None \<Rightarrow>
          (case handlers s (req_Method req) of
             None \<Rightarrow> NewErrorResponse (req_ID req)
                       (NewMethodNotFoundError (''Method '' @ [CHR 0x27] @ req_Method req @ [CHR 0x27] @ '' not found'') None)
           | Some handler \<Rightarrow>
               (case handler st (req_Params req) of
                  (result, Some jsonErr) \<Rightarrow> NewErrorResponse (req_ID req) jsonErr
                | (result, None) \<Rightarrow> NewSuccessResponse (req_ID req) result)))"

section \<open>The Go runtime and the JSON library\<close>

text \<open>
  \<^verbatim>\<open>encoding/json\<close> and the Go runtime are not part of the repository. What the
  dispatch layer needs from them is passed as a parameter: the parser of a document's
  text, the printer, the text and the JSON image of the error values the decoder returns,
  the order in which a \<^verbatim>\<open>range\<close> loop visits the keys of a map, and the literal
  that \<^verbatim>\<open>json.Marshal\<close> writes for a float64. The mapping between JSON objects and
  the repository's structs, which the struct tags of the sources fix, is written out
  below.
\<close>

datatype unmarshal_error =
    SyntaxError string
  | UnmarshalTypeError string

record goenv =
  parse_text :: "string \<Rightarrow> json option"
  text_of :: "json \<Rightarrow> string"
  err_text :: "unmarshal_error \<Rightarrow> string"
  err_value :: "unmarshal_error \<Rightarrow> json"
  range_order :: "string list \<Rightarrow> string list"
  write_float64 :: "float64 \<Rightarrow> number"

text \<open>
  An object key selects the field whose tag it equals under simple case folding. The tags
  are ASCII, so what folds to a letter of a tag is that letter in either case and, in
  UTF-8, the long s (U+017F, bytes C5 BF) for \<^verbatim>\<open>s\<close> and the Kelvin sign (U+212A,
  bytes E2 84 AA) for \<^verbatim>\<open>k\<close>.
\<close>

definition lower :: "char \<Rightarrow> char" where
  "lower c =
     (case map_of (zip ''ABCDEFGHIJKLMNOPQRSTUVWXYZ'' ''abcdefghijklmnopqrstuvwxyz'') c of
        None \<Rightarrow> c
      | Some d \<Rightarrow> d)"

fun fold_key :: "string \<Rightarrow> string" where
  "fold_key (a # b # c # cs) =
     (if a = CHR 0xE2 \<and> b = CHR 0x84 \<and> c = CHR 0xAA then CHR ''k'' # fold_key cs
      else if a = CHR 0xC5 \<and> b = CHR 0xBF then CHR ''s'' # fold_key (c # cs)
      else lower a # fold_key (b # c # cs))"
| "fold_key [a, b] =
     (if a = CHR 0xC5 \<and> b = CHR 0xBF then [CHR ''s''] else lower a # fold_key [b])"
| "fold_key [a] = [lower a]"
| "fold_key [] = []"

definition same_key :: "string \<Rightarrow> string \<Rightarrow> bool" where
  "same_key k tag = (fold_key k = fold_key tag)"

fun decode_fields ::
  "('a \<Rightarrow> string \<times> json \<Rightarrow> unmarshal_error + 'a) \<Rightarrow> 'a \<Rightarrow> (string \<times> json) list \<Rightarrow> unmarshal_error + 'a"
where
  "decode_fields f r [] = Inr r"
| "decode_fields f r (kv # kvs) =
     (case f r kv of Inl e \<Rightarrow> Inl e | Inr r' \<Rightarrow> decode_fields f r' kvs)"

text \<open>
  Decoding into a struct: \<^verbatim>\<open>null\<close> leaves the struct as it is, an object sets the
  fields its keys name, one after the other, and any other document is a type error.
\<close>

definition decode_struct ::
  "('a \<Rightarrow> string \<times> json \<Rightarrow> unmarshal_error + 'a) \<Rightarrow> 'a \<Rightarrow> json \<Rightarrow> unmarshal_error + 'a"
where
  "decode_struct f zero v =
     (case v of
        JNull \<Rightarrow> Inr zero
      | JObj kvs \<Rightarrow> decode_fields f zero kvs
      | _ \<Rightarrow> Inl (UnmarshalTypeError []))"

text \<open>A string field: \<^verbatim>\<open>null\<close> has no effect, a string is stored, anything else is a type error.\<close>

definition decode_string :: "string \<Rightarrow> json \<Rightarrow> string \<Rightarrow> unmarshal_error + string" where
  "decode_string tag v old =
     (case v of JNull \<Rightarrow> Inr old | JStr s \<Rightarrow> Inr s | _ \<Rightarrow> Inl (UnmarshalTypeError tag))"

text \<open>
  A document decoded into an \<^verbatim>\<open>interface{}\<close>: a number becomes a float64, an array
  a slice, an object a map, in which a later member replaces an earlier one of the same
  key. The value is kept as the document \<^verbatim>\<open>json.Marshal\<close> writes for it: a
  float64 as its literal, a map with its keys in sorted order.
\<close>

fun decode_value :: "goenv \<Rightarrow> json \<Rightarrow> unmarshal_error + json"
  and decode_elements :: "goenv \<Rightarrow> json list \<Rightarrow> unmarshal_error + json list"
  and decode_members ::
    "goenv \<Rightarrow> (string \<times> json) list \<Rightarrow> (string \<times> json) list \<Rightarrow> unmarshal_error + (string \<times> json) list"
where
  "decode_value G JNull = Inr JNull"
| "decode_value G (JBool b) = Inr (JBool b)"
| "decode_value G (JNum n) =
     (case float64_of n of
        None \<Rightarrow> Inl (UnmarshalTypeError ''number'')
      | Some f \<Rightarrow> Inr (JNum (write_float64 G f)))"
| "decode_value G (JStr s) = Inr (JStr s)"
| "decode_value G (JArr xs) =
     (case decode_elements G xs of Inl e \<Rightarrow> Inl e | Inr ys \<Rightarrow> Inr (JArr ys))"
| "decode_value G (JObj kvs) =
     (case decode_members G [] kvs of Inl e \<Rightarrow> Inl e | Inr m \<Rightarrow> Inr (JObj (sort_key fst m)))"
| "decode_elements G [] = Inr []"
| "decode_elements G (x # xs) =
     (case decode_value G x of
        Inl e \<Rightarrow> Inl e
      | Inr y \<Rightarrow> (case decode_elements G xs of Inl e \<Rightarrow> Inl e | Inr ys \<Rightarrow> Inr (y # ys)))"
| "decode_members G m [] = Inr m"
| "decode_members G m ((k, v) # kvs) =
     (case decode_value G v of
        Inl e \<Rightarrow> Inl e
      | Inr y \<Rightarrow> decode_members G (AList.update k y m) kvs)"

text \<open>An \<^verbatim>\<open>interface{}\<close> field: \<^verbatim>\<open>null\<close> stores nil, any other document its value.\<close>

definition decode_iface :: "goenv \<Rightarrow> json \<Rightarrow> unmarshal_error + iface" where
  "decode_iface G v =
     (case decode_value G v of
        Inl e \<Rightarrow> Inl e
      | Inr w \<Rightarrow> Inr (if w = JNull then None else Some w))"

text \<open>
  The values that decoding into an \<^verbatim>\<open>interface{}\<close> produces: a number is the
  literal written for the float64 it is read as, the keys of an object are sorted and
  distinct.
\<close>

fun generic :: "goenv \<Rightarrow> json \<Rightarrow> bool"
  and generic_elements :: "goenv \<Rightarrow> json list \<Rightarrow> bool"
  and generic_members :: "goenv \<Rightarrow> (string \<times> json) list \<Rightarrow> bool"
where
  "generic G JNull = True"
| "generic G (JBool b) = True"
| "generic G (JNum n) = (case float64_of n of None \<Rightarrow> False | Some f \<Rightarrow> write_float64 G f = n)"
| "generic G (JStr s) = True"
| "generic G (JArr xs) = generic_elements G xs"
| "generic G (JObj kvs) = (sorted (map fst kvs) \<and> distinct (map fst kvs) \<and> generic_members G kvs)"
| "generic_elements G [] = True"
| "generic_elements G (x # xs) = (generic G x \<and> generic_elements G xs)"
| "generic_members G [] = True"
| "generic_members G ((k, v) # kvs) = (generic G v \<and> generic_members G kvs)"

text \<open>The value of the last member of an object that selects the field of a tag.\<close>

fun last_member :: "string \<Rightarrow> (string \<times> json) list \<Rightarrow> json option" where
  "last_member tag [] = None"
| "last_member tag ((k, v) # kvs) =
     (case last_member tag kvs of
        Some w \<Rightarrow> Some w
      | None \<Rightarrow> if same_key k tag then Some v else None)"

definition zero_Request :: Request where
  "zero_Request = \<lparr>req_JSONRPC = [], req_Method = [], req_Params = None, req_ID = None\<rparr>"

definition set_Request_field ::
  "goenv \<Rightarrow> Request \<Rightarrow> string \<times> json \<Rightarrow> unmarshal_error + Request"
where
  "set_Request_field G r kv =
     (case kv of (k, v) \<Rightarrow>
        if same_key k ''jsonrpc'' then
          (case decode_string ''jsonrpc'' v (req_JSONRPC r) of
             Inl e \<Rightarrow> Inl e | Inr s \<Rightarrow> Inr (r\<lparr>req_JSONRPC := s\<rparr>))
        else if same_key k ''method'' then
          (case decode_string ''method'' v (req_Method r) of
             Inl e \<Rightarrow> Inl e | Inr s \<Rightarrow> Inr (r\<lparr>req_Method := s\<rparr>))
        else if same_key k ''params'' then Inr (r\<lparr>req_Params := Some v\<rparr>)
        else if same_key k ''id'' then
          (case decode_iface G v of Inl e \<Rightarrow> Inl e | Inr i \<Rightarrow> Inr (r\<lparr>req_ID := i\<rparr>))
        else Inr r)"

text \<open>\<^verbatim>\<open>json.Unmarshal(line, &req)\<close> on a line of the input.\<close>

definition Unmarshal_Request :: "goenv \<Rightarrow> string \<Rightarrow> unmarshal_error + Request" where
  "Unmarshal_Request L line =
     (case parse_text L line of
        None \<Rightarrow> Inl (SyntaxError line)
      | Some v \<Rightarrow> decode_struct (set_Request_field L) zero_Request v)"

text \<open>
  \<^verbatim>\<open>json.Marshal\<close> of a \<^verbatim>\<open>Response\<close>: the struct tags give the member names, and
  \<^verbatim>\<open>omitempty\<close> leaves out a nil interface and a nil pointer.
\<close>

definition omitempty :: "string \<Rightarrow> iface \<Rightarrow> (string \<times> json) list" where
  "omitempty tag x = (case x of None \<Rightarrow> [] | Some v \<Rightarrow> [(tag, v)])"

definition encode_Error :: "Error \<Rightarrow> json" where
  "encode_Error e =
     JObj ([(''code'', JNum (IntLit (sint (Code e)))), (''message'', JStr (Message e))]
           @ omitempty ''data'' (Data e))"

definition encode_Response :: "Response \<Rightarrow> json" where
  "encode_Response r =
     JObj ([(''jsonrpc'', JStr (resp_JSONRPC r))]
           @ omitempty ''result'' (resp_Result r)
           @ omitempty ''error'' (map_option encode_Error (resp_Error r))
           @ omitempty ''id'' (resp_ID r))"

section \<open>Package jsonrpc: the transport loop\<close>

text \<open>
  The output is the list of the chunks written and flushed, one per call of
  \<^verbatim>\<open>writeResponse\<close>. Every value that reaches \<^verbatim>\<open>writeResponse\<close> is built from
  strings, booleans, integers, slices and maps, so \<^verbatim>\<open>json.Marshal\<close> does not fail on it.
\<close>

definition writeResponse :: "goenv \<Rightarrow> string list \<Rightarrow> Response \<Rightarrow> string list" where
  "writeResponse L out resp = out @ [text_of L (encode_Response resp) @ [CHR 0x0A]]"

text \<open>
  \<^verbatim>\<open>reader.ReadBytes('\n')\<close> on the rest of the input: the bytes up to and including
  the first newline and what follows them, or \<open>None\<close> when the input ends first.
\<close>

fun ReadBytes :: "string \<Rightarrow> (string \<times> string) option" where
  "ReadBytes [] = None"
| "ReadBytes (c # cs) =
     (if c = CHR 0x0A then Some ([c], cs)
      else (case ReadBytes cs of None \<Rightarrow> None | Some (l, rest) \<Rightarrow> Some (c # l, rest)))"

text \<open>
  The loop of \<^verbatim>\<open>ServeStdio\<close> on an input that ends (a read error other than the end
  of the input is not modelled). The result is what has been written when it returns.
\<close>

function ServeStdio ::
  "goenv \<Rightarrow> 'st rpcServer \<Rightarrow> 'st \<Rightarrow> string \<Rightarrow> string list \<Rightarrow> string list"
where
  "ServeStdio L s st inp out =
     (case ReadBytes inp of
        None \<Rightarrow> out
      | Some (line, rest) \<Rightarrow>
          (case Unmarshal_Request L line of
             Inl err \<Rightarrow>
               ServeStdio L s st rest
                 (writeResponse L out
                    (NewErrorResponse None
                       (NewParseError ''Failed to unmarshal request'' (Some (err_value L err)))))
           | Inr req \<Rightarrow>
               (let resp = HandleRequest s st req in
                if \<not> IsNotification req then ServeStdio L s st rest (writeResponse L out resp)
                else ServeStdio L s st rest out)))"
  by pat_completeness auto
termination
proof -
  have shorter: "length rest < length inp" if "ReadBytes inp = Some (l, rest)"
    for inp l and rest :: string
    using that by (induction inp arbitrary: l rest) (auto split: if_splits option.splits)
  show ?thesis
    by (relation "measure (\<lambda>(L, s, st, inp, out). length inp)") (auto dest: shorter)
qed

section \<open>Package mcp: protocol types\<close>

definition ProtocolVersion :: string where
  "ProtocolVersion = ''2025-11-25''"

record ToolCapability =
  tool_ListChanged :: bool

record ResourceCapability =
  Subscribe :: bool
  res_ListChanged :: bool

record PromptCapability =
  prompt_ListChanged :: bool

text \<open>\<^verbatim>\<open>LoggingCapability\<close> is the empty struct; a pointer to it is non-nil or nil.\<close>

record ServerCapabilities =
  cap_Tools :: "ToolCapability option"
  cap_Resources :: "ResourceCapability option"
  cap_Prompts :: "PromptCapability option"
  cap_Logging :: "unit option"

record ClientInfo =
  ci_Name :: string
  ci_Version :: string

record Property =
  prop_Type :: string
  prop_Description :: string

record InputSchema =
  schema_Type :: string
  Properties :: "(string \<times> Property) list"
  Required :: "string list"

record Tool =
  tool_Name :: string
  tool_Description :: string
  tool_InputSchema :: InputSchema

record Content =
  content_Type :: string
  content_Text :: string
  content_MimeType :: string
  content_Data :: string
  content_URI :: string

record ToolCallParams =
  call_Name :: string
  call_Arguments :: "(string \<times> json) list option"

text \<open>A slice field is \<open>None\<close> when it is nil, which marshals to \<^verbatim>\<open>null\<close>.\<close>

record ToolCallResult =
  result_Content :: "Content list option"
  IsError :: bool

definition NewTextContent :: "string \<Rightarrow> Content" where
  "NewTextContent text =
     \<lparr>content_Type = ''text'', content_Text = text, content_MimeType = [],
      content_Data = [], content_URI = []\<rparr>"

text \<open>
  Modelled from the spec: the declarations of \<^verbatim>\<open>Resource\<close>, \<^verbatim>\<open>Prompt\<close>,
  \<^verbatim>\<open>ReadResourceParams\<close> and \<^verbatim>\<open>GetPromptParams\<close> are not among the sources. The
  spec gives a resource as \<^verbatim>\<open>{uri (unique key), ...metadata}\<close>, a prompt as
  \<^verbatim>\<open>{name (unique key), ...metadata}\<close>, the parameters of \<^verbatim>\<open>resources/read\<close> as
  \<^verbatim>\<open>{uri}\<close> and those of \<^verbatim>\<open>prompts/get\<close> as \<^verbatim>\<open>{name, arguments?}\<close> with
  string-valued arguments. The metadata is kept as the JSON members it marshals to.
\<close>

record Resource =
  res_URI :: string
  res_Metadata :: "(string \<times> json) list"

record Prompt =
  prompt_Name :: string
  prompt_Metadata :: "(string \<times> json) list"

record ReadResourceParams =
  read_URI :: string

record GetPromptParams =
  get_Name :: string
  get_Arguments :: "(string \<times> string) list option"

text \<open>
  Modelled from the spec: the method-name constants are not among the sources; the spec's
  table of methods gives their values.
\<close>

definition MethodInitialize :: string where "MethodInitialize = ''initialize''"
definition MethodPing :: string where "MethodPing = ''ping''"
definition MethodToolsList :: string where "MethodToolsList = ''tools/list''"
definition MethodToolsCall :: string where "MethodToolsCall = ''tools/call''"
definition MethodResourcesList :: string where "MethodResourcesList = ''resources/list''"
definition MethodResourcesRead :: string where "MethodResourcesRead = ''resources/read''"
definition MethodPromptsList :: string where "MethodPromptsList = ''prompts/list''"
definition MethodPromptsGet :: string where "MethodPromptsGet = ''prompts/get''"
definition NotificationInitialized :: string where
  "NotificationInitialized = ''notifications/initialized''"
definition MethodLoggingSetLevel :: string where "MethodLoggingSetLevel = ''logging/setLevel''"

subsection \<open>Marshalling the results\<close>

text \<open>
  \<^verbatim>\<open>omitempty\<close> on a string leaves out the empty string, on a bool \<^verbatim>\<open>false\<close>, on
  a slice or map the empty one. The keys of a map are written in sorted order.
\<close>

definition omit_string :: "string \<Rightarrow> string \<Rightarrow> (string \<times> json) list" where
  "omit_string tag s = (if s = [] then [] else [(tag, JStr s)])"

definition omit_bool :: "string \<Rightarrow> bool \<Rightarrow> (string \<times> json) list" where
  "omit_bool tag b = (if b then [(tag, JBool True)] else [])"

definition encode_Property :: "Property \<Rightarrow> json" where
  "encode_Property p =
     JObj ([(''type'', JStr (prop_Type p))] @ omit_string ''description'' (prop_Description p))"

definition encode_InputSchema :: "InputSchema \<Rightarrow> json" where
  "encode_InputSchema i =
     JObj ([(''type'', JStr (schema_Type i))]
           @ (if Properties i = [] then []
              else [(''properties'',
                     JObj (map (\<lambda>(k, p). (k, encode_Property p)) (sort_key fst (Properties i))))])
           @ (if Required i = [] then [] else [(''required'', JArr (map JStr (Required i)))]))"

definition encode_Tool :: "Tool \<Rightarrow> json" where
  "encode_Tool t =
     JObj ([(''name'', JStr (tool_Name t))]
           @ omit_string ''description'' (tool_Description t)
           @ [(''inputSchema'', encode_InputSchema (tool_InputSchema t))])"

definition encode_Content :: "Content \<Rightarrow> json" where
  "encode_Content c =
     JObj ([(''type'', JStr (content_Type c))]
           @ omit_string ''text'' (content_Text c)
           @ omit_string ''mimeType'' (content_MimeType c)
           @ omit_string ''data'' (content_Data c)
           @ omit_string ''uri'' (content_URI c))"

definition encode_ToolCallResult :: "ToolCallResult \<Rightarrow> json" where
  "encode_ToolCallResult r =
     JObj ([(''content'', (case result_Content r of None \<Rightarrow> JNull | Some cs \<Rightarrow> JArr (map encode_Content cs)))]
           @ omit_bool ''isError'' (IsError r))"

text \<open>
  \<^verbatim>\<open>ToolListResult\<close> embeds \<^verbatim>\<open>PaginatedResult\<close>, whose cursor the handler leaves
  nil. A nil slice of tools would be written as \<^verbatim>\<open>null\<close>; the handler always makes one.
\<close>

definition encode_ToolListResult :: "Tool list \<Rightarrow> json" where
  "encode_ToolListResult ts = JObj [(''tools'', JArr (map encode_Tool ts))]"

definition encode_Resource :: "Resource \<Rightarrow> json" where
  "encode_Resource r = JObj ((''uri'', JStr (res_URI r)) # res_Metadata r)"

definition encode_Prompt :: "Prompt \<Rightarrow> json" where
  "encode_Prompt p = JObj ((''name'', JStr (prompt_Name p)) # prompt_Metadata p)"

definition encode_ListResourcesResult :: "Resource list \<Rightarrow> json" where
  "encode_ListResourcesResult rs = JObj [(''resources'', JArr (map encode_Resource rs))]"

definition encode_ListPromptsResult :: "Prompt list \<Rightarrow> json" where
  "encode_ListPromptsResult ps = JObj [(''prompts'', JArr (map encode_Prompt ps))]"

definition encode_ServerCapabilities :: "ServerCapabilities \<Rightarrow> json" where
  "encode_ServerCapabilities c =
     JObj (omitempty ''tools''
             (map_option (\<lambda>t. JObj (omit_bool ''listChanged'' (tool_ListChanged t))) (cap_Tools c))
           @ omitempty ''resources''
             (map_option (\<lambda>r. JObj (omit_bool ''subscribe'' (Subscribe r)
                                     @ omit_bool ''listChanged'' (res_ListChanged r)))
                (cap_Resources c))
           @ omitempty ''prompts''
             (map_option (\<lambda>p. JObj (omit_bool ''listChanged'' (prompt_ListChanged p)))
                (cap_Prompts c))
           @ omitempty ''logging'' (map_option (\<lambda>_. JObj []) (cap_Logging c)))"

definition encode_ClientInfo :: "ClientInfo \<Rightarrow> json" where
  "encode_ClientInfo i = JObj [(''name'', JStr (ci_Name i)), (''version'', JStr (ci_Version i))]"

definition encode_InitializeResult ::
  "string \<Rightarrow> ServerCapabilities \<Rightarrow> ClientInfo \<Rightarrow> string \<Rightarrow> json"
where
  "encode_InitializeResult version caps info instr =
     JObj ([(''protocolVersion'', JStr version),
            (''capabilities'', encode_ServerCapabilities caps),
            (''serverInfo'', encode_ClientInfo info)]
           @ omit_string ''instructions'' instr)"

subsection \<open>Unmarshalling the parameters\<close>

text \<open>
  \<^verbatim>\<open>json.Unmarshal(params, &req)\<close> on the raw parameters of a request: an absent
  \<^verbatim>\<open>params\<close> member leaves the raw message empty, which is not a JSON document.
\<close>

definition Unmarshal_params ::
  "('a \<Rightarrow> string \<times> json \<Rightarrow> unmarshal_error + 'a) \<Rightarrow> 'a \<Rightarrow> json option \<Rightarrow> unmarshal_error + 'a"
where
  "Unmarshal_params f zero raw =
     (case raw of None \<Rightarrow> Inl (SyntaxError []) | Some v \<Rightarrow> decode_struct f zero v)"

text \<open>
  A field of type \<^verbatim>\<open>map[string]interface{}\<close>: \<^verbatim>\<open>null\<close> stores the nil map, an
  object adds its decoded members to the map already there (a later member replaces an
  earlier one of the same key), anything else is a type error.
\<close>

definition decode_map ::
  "goenv \<Rightarrow> string \<Rightarrow> json \<Rightarrow> (string \<times> json) list option \<Rightarrow>
     unmarshal_error + (string \<times> json) list option"
where
  "decode_map G tag v old =
     (case v of
        JNull \<Rightarrow> Inr None
      | JObj kvs \<Rightarrow>
          (case decode_members G (case old of None \<Rightarrow> [] | Some m \<Rightarrow> m) kvs of
             Inl e \<Rightarrow> Inl e | Inr m \<Rightarrow> Inr (Some m))
      | _ \<Rightarrow> Inl (UnmarshalTypeError tag))"

definition zero_ToolCallParams :: ToolCallParams where
  "zero_ToolCallParams = \<lparr>call_Name = [], call_Arguments = None\<rparr>"

definition set_ToolCallParams_field ::
  "goenv \<Rightarrow> ToolCallParams \<Rightarrow> string \<times> json \<Rightarrow> unmarshal_error + ToolCallParams"
where
  "set_ToolCallParams_field G p kv =
     (case kv of (k, v) \<Rightarrow>
        if same_key k ''name'' then
          (case decode_string ''name'' v (call_Name p) of
             Inl e \<Rightarrow> Inl e | Inr s \<Rightarrow> Inr (p\<lparr>call_Name := s\<rparr>))
        else if same_key k ''arguments'' then
          (case decode_map G ''arguments'' v (call_Arguments p) of
             Inl e \<Rightarrow> Inl e | Inr m \<Rightarrow> Inr (p\<lparr>call_Arguments := m\<rparr>))
        else Inr p)"

definition zero_ReadResourceParams :: ReadResourceParams where
  "zero_ReadResourceParams = \<lparr>read_URI = []\<rparr>"

definition set_ReadResourceParams_field ::
  "ReadResourceParams \<Rightarrow> string \<times> json \<Rightarrow> unmarshal_error + ReadResourceParams"
where
  "set_ReadResourceParams_field p kv =
     (case kv of (k, v) \<Rightarrow>
        if same_key k ''uri'' then
          (case decode_string ''uri'' v (read_URI p) of
             Inl e \<Rightarrow> Inl e | Inr s \<Rightarrow> Inr (p\<lparr>read_URI := s\<rparr>))
        else Inr p)"

text \<open>A member of a \<^verbatim>\<open>map[string]string\<close>: \<^verbatim>\<open>null\<close> stores the empty string.\<close>

fun decode_string_members ::
  "string \<Rightarrow> (string \<times> string) list \<Rightarrow> (string \<times> json) list \<Rightarrow> unmarshal_error + (string \<times> string) list"
where
  "decode_string_members tag m [] = Inr m"
| "decode_string_members tag m ((k, v) # kvs) =
     (case decode_string tag v [] of
        Inl e \<Rightarrow> Inl e
      | Inr s \<Rightarrow> decode_string_members tag (AList.update k s m) kvs)"

definition decode_string_map ::
  "string \<Rightarrow> json \<Rightarrow> (string \<times> string) list option \<Rightarrow> unmarshal_error + (string \<times> string) list option"
where
  "decode_string_map tag v old =
     (case v of
        JNull \<Rightarrow> Inr None
      | JObj kvs \<Rightarrow>
          (case decode_string_members tag (case old of None \<Rightarrow> [] | Some m \<Rightarrow> m) kvs of
             Inl e \<Rightarrow> Inl e | Inr m \<Rightarrow> Inr (Some m))
      | _ \<Rightarrow> Inl (UnmarshalTypeError tag))"

definition zero_GetPromptParams :: GetPromptParams where
  "zero_GetPromptParams = \<lparr>get_Name = [], get_Arguments = None\<rparr>"

definition set_GetPromptParams_field ::
  "GetPromptParams \<Rightarrow> string \<times> json \<Rightarrow> unmarshal_error + GetPromptParams"
where
  "set_GetPromptParams_field p kv =
     (case kv of (k, v) \<Rightarrow>
        if same_key k ''name'' then
          (case decode_string ''name'' v (get_Name p) of
             Inl e \<Rightarrow> Inl e | Inr s \<Rightarrow> Inr (p\<lparr>get_Name := s\<rparr>))
        else if same_key k ''arguments'' then
          (case decode_string_map ''arguments'' v (get_Arguments p) of
             Inl e \<Rightarrow> Inl e | Inr m \<Rightarrow> Inr (p\<lparr>get_Arguments := m\<rparr>))
        else Inr p)"

record ClientCapabilities =
  Experimental :: "(string \<times> json) list option"
  Sampling :: "unit option"

record InitializeRequest =
  init_ProtocolVersion :: string
  init_Capabilities :: ClientCapabilities
  init_ClientInfo :: ClientInfo

definition set_ClientCapabilities_field ::
  "goenv \<Rightarrow> ClientCapabilities \<Rightarrow> string \<times> json \<Rightarrow> unmarshal_error + ClientCapabilities"
where
  "set_ClientCapabilities_field G c kv =
     (case kv of (k, v) \<Rightarrow>
        if same_key k ''experimental'' then
          (case decode_map G ''experimental'' v (Experimental c) of
             Inl e \<Rightarrow> Inl e | Inr m \<Rightarrow> Inr (c\<lparr>Experimental := m\<rparr>))
        else if same_key k ''sampling'' then
          (case v of
             JNull \<Rightarrow> Inr (c\<lparr>Sampling := None\<rparr>)
           | JObj kvs \<Rightarrow> Inr (c\<lparr>Sampling := Some ()\<rparr>)
           | _ \<Rightarrow> Inl (UnmarshalTypeError ''sampling''))
        else Inr c)"

definition set_ClientInfo_field :: "ClientInfo \<Rightarrow> string \<times> json \<Rightarrow> unmarshal_error + ClientInfo" where
  "set_ClientInfo_field c kv =
     (case kv of (k, v) \<Rightarrow>
        if same_key k ''name'' then
          (case decode_string ''name'' v (ci_Name c) of
             Inl e \<Rightarrow> Inl e | Inr s \<Rightarrow> Inr (c\<lparr>ci_Name := s\<rparr>))
        else if same_key k ''version'' then
          (case decode_string ''version'' v (ci_Version c) of
             Inl e \<Rightarrow> Inl e | Inr s \<Rightarrow> Inr (c\<lparr>ci_Version := s\<rparr>))
        else Inr c)"

definition zero_InitializeRequest :: InitializeRequest where
  "zero_InitializeRequest =
     \<lparr>init_ProtocolVersion = [],
      init_Capabilities = \<lparr>Experimental = None, Sampling = None\<rparr>,
      init_ClientInfo = \<lparr>ci_Name = [], ci_Version = []\<rparr>\<rparr>"

definition set_InitializeRequest_field ::
  "goenv \<Rightarrow> InitializeRequest \<Rightarrow> string \<times> json \<Rightarrow> unmarshal_error + InitializeRequest"
where
  "set_InitializeRequest_field G r kv =
     (case kv of (k, v) \<Rightarrow>
        if same_key k ''protocolVersion'' then
          (case decode_string ''protocolVersion'' v (init_ProtocolVersion r) of
             Inl e \<Rightarrow> Inl e | Inr s \<Rightarrow> Inr (r\<lparr>init_ProtocolVersion := s\<rparr>))
        else if same_key k ''capabilities'' then
          (case decode_struct (set_ClientCapabilities_field G) (init_Capabilities r) v of
             Inl e \<Rightarrow> Inl e | Inr c \<Rightarrow> Inr (r\<lparr>init_Capabilities := c\<rparr>))
        else if same_key k ''clientInfo'' then
          (case decode_struct set_ClientInfo_field (init_ClientInfo r) v of
             Inl e \<Rightarrow> Inl e | Inr c \<Rightarrow> Inr (r\<lparr>init_ClientInfo := c\<rparr>))
        else Inr r)"

section \<open>Package mcp: the registry\<close>

text \<open>
  A handler returns a pointer to its result, or nil, and an \<^verbatim>\<open>error\<close>, of which the
  registry uses the message \<^verbatim>\<open>err.Error()\<close> only: \<open>None\<close> is the nil error.
  The result types of the resource and prompt handlers are not among the sources and are
  kept as the JSON they marshal to.
\<close>

type_synonym ToolHandler = "(string \<times> json) list option \<Rightarrow> ToolCallResult option \<times> string option"
type_synonym ResourceHandler = "string \<Rightarrow> json option \<times> string option"
type_synonym PromptHandler = "(string \<times> string) list option \<Rightarrow> json option \<times> string option"

text \<open>
  A Go map is an association list with one entry per key: \<^verbatim>\<open>m[k] = v\<close> is
  \<open>AList.update k v m\<close>, \<^verbatim>\<open>m[k]\<close> is \<open>map_of m k\<close> and \<^verbatim>\<open>len(m)\<close> is
  \<open>length m\<close>. The logger and the lock are not modelled.
\<close>

record Registry =
  reg_serverInfo :: ClientInfo
  reg_capabilities :: ServerCapabilities
  reg_instructions :: string
  tools :: "(string \<times> Tool) list"
  toolHandlers :: "(string \<times> ToolHandler) list"
  resources :: "(string \<times> Resource) list"
  resourceHandlers :: "(string \<times> ResourceHandler) list"
  prompts :: "(string \<times> Prompt) list"
  promptHandlers :: "(string \<times> PromptHandler) list"

definition zero_ServerCapabilities :: ServerCapabilities where
  "zero_ServerCapabilities =
     \<lparr>cap_Tools = None, cap_Resources = None, cap_Prompts = None, cap_Logging = None\<rparr>"

definition NewRegistry :: "ClientInfo \<Rightarrow> string \<Rightarrow> Registry" where
  "NewRegistry info instr =
     \<lparr>reg_serverInfo = info, reg_capabilities = zero_ServerCapabilities, reg_instructions = instr,
      tools = [], toolHandlers = [], resources = [], resourceHandlers = [],
      prompts = [], promptHandlers = []\<rparr>"

definition RegisterTool :: "Tool \<Rightarrow> ToolHandler \<Rightarrow> Registry \<Rightarrow> Registry" where
  "RegisterTool tool handler r =
     r\<lparr>tools := AList.update (tool_Name tool) tool (tools r),
       toolHandlers := AList.update (tool_Name tool) handler (toolHandlers r)\<rparr>"

definition RegisterResource :: "Resource \<Rightarrow> ResourceHandler \<Rightarrow> Registry \<Rightarrow> Registry" where
  "RegisterResource resource handler r =
     r\<lparr>resources := AList.update (res_URI resource) resource (resources r),
       resourceHandlers := AList.update (res_URI resource) handler (resourceHandlers r)\<rparr>"

definition RegisterPrompt :: "Prompt \<Rightarrow> PromptHandler \<Rightarrow> Registry \<Rightarrow> Registry" where
  "RegisterPrompt prompt handler r =
     r\<lparr>prompts := AList.update (prompt_Name prompt) prompt (prompts r),
       promptHandlers := AList.update (prompt_Name prompt) handler (promptHandlers r)\<rparr>"

definition buildCapabilities :: "Registry \<Rightarrow> ServerCapabilities" where
  "buildCapabilities r =
     (let caps = zero_ServerCapabilities\<lparr>cap_Logging := Some ()\<rparr>;
          caps = (if length (tools r) > 0
                  then caps\<lparr>cap_Tools := Some \<lparr>tool_ListChanged = False\<rparr>\<rparr> else caps);
          caps = (if length (resources r) > 0
                  then caps\<lparr>cap_Resources := Some \<lparr>Subscribe = False, res_ListChanged = False\<rparr>\<rparr>
                  else caps);
          caps = (if length (prompts r) > 0
                  then caps\<lparr>cap_Prompts := Some \<lparr>prompt_ListChanged = False\<rparr>\<rparr> else caps)
      in caps)"

text \<open>
  \<^verbatim>\<open>for _, v := range m\<close> collects the values of a map in the order in which the
  runtime visits its keys.
\<close>

definition range_values :: "goenv \<Rightarrow> (string \<times> 'v) list \<Rightarrow> 'v list" where
  "range_values G m = List.map_filter (map_of m) (range_order G (map fst m))"

definition quoted :: "string \<Rightarrow> string" where
  "quoted s = [CHR 0x27] @ s @ [CHR 0x27]"

definition handleInitialize :: "goenv \<Rightarrow> Registry Handler" where
  "handleInitialize G r params =
     (case Unmarshal_params (set_InitializeRequest_field G) zero_InitializeRequest params of
        Inl err \<Rightarrow>
          (None, Some (NewInvalidParamsError ''Invalid initialize params'' (Some (JStr (err_text G err)))))
      | Inr req \<Rightarrow>
          (Some (encode_InitializeResult ProtocolVersion (reg_capabilities r) (reg_serverInfo r)
                   (reg_instructions r)), None))"

definition handlePing :: "Registry Handler" where
  "handlePing r params = (Some (JObj []), None)"

definition handleInitializedNotification :: "Registry Handler" where
  "handleInitializedNotification r params = (None, None)"

text \<open>The handlers of the registry. The parameters of the list handlers and of ping are not read.\<close>

definition handleToolsList :: "goenv \<Rightarrow> Registry Handler" where
  "handleToolsList G r params = (Some (encode_ToolListResult (range_values G (tools r))), None)"

definition handleToolsCall :: "goenv \<Rightarrow> Registry Handler" where
  "handleToolsCall G r params =
     (case Unmarshal_params (set_ToolCallParams_field G) zero_ToolCallParams params of
        Inl err \<Rightarrow>
          (None, Some (NewInvalidParamsError ''Invalid tool call params'' (Some (JStr (err_text G err)))))
      | Inr req \<Rightarrow>
          (case map_of (toolHandlers r) (call_Name req) of
             None \<Rightarrow>
               (None, Some (NewInvalidParamsError
                              (''Tool '' @ quoted (call_Name req) @ '' not found'') None))
           | Some handler \<Rightarrow>
               (case handler (call_Arguments req) of
                  (result, Some err) \<Rightarrow>
                    (Some (encode_ToolCallResult
                             \<lparr>result_Content = Some [NewTextContent err], IsError = True\<rparr>), None)
                | (result, None) \<Rightarrow>
                    (Some (case result of None \<Rightarrow> JNull | Some res \<Rightarrow> encode_ToolCallResult res),
                     None))))"

definition handleResourcesList :: "goenv \<Rightarrow> Registry Handler" where
  "handleResourcesList G r params =
     (Some (encode_ListResourcesResult (range_values G (resources r))), None)"

definition handleResourcesRead :: "goenv \<Rightarrow> Registry Handler" where
  "handleResourcesRead G r params =
     (case Unmarshal_params set_ReadResourceParams_field zero_ReadResourceParams params of
        Inl err \<Rightarrow>
          (None, Some (NewInvalidParamsError ''Invalid resource read params''
                         (Some (JStr (err_text G err)))))
      | Inr req \<Rightarrow>
          (case map_of (resourceHandlers r) (read_URI req) of
             None \<Rightarrow>
               (None, Some (NewInvalidParamsError
                              (''Resource '' @ quoted (read_URI req) @ '' not found'') None))
           | Some handler \<Rightarrow>
               (case handler (read_URI req) of
                  (result, Some err) \<Rightarrow>
                    (None, Some (NewInternalError ''Failed to read resource'' (Some (JStr err))))
                | (result, None) \<Rightarrow>
                    (Some (case result of None \<Rightarrow> JNull | Some res \<Rightarrow> res), None))))"

definition handlePromptsList :: "goenv \<Rightarrow> Registry Handler" where
  "handlePromptsList G r params =
     (Some (encode_ListPromptsResult (range_values G (prompts r))), None)"

definition handlePromptsGet :: "goenv \<Rightarrow> Registry Handler" where
  "handlePromptsGet G r params =
     (case Unmarshal_params set_GetPromptParams_field zero_GetPromptParams params of
        Inl err \<Rightarrow>
          (None, Some (NewInvalidParamsError ''Invalid prompt get params''
                         (Some (JStr (err_text G err)))))
      | Inr req \<Rightarrow>
          (case map_of (promptHandlers r) (get_Name req) of
             None \<Rightarrow>
               (None, Some (NewInvalidParamsError
                              (''Prompt '' @ quoted (get_Name req) @ '' not found'') None))
           | Some handler \<Rightarrow>
               (case handler (get_Arguments req) of
                  (result, Some err) \<Rightarrow>
                    (None, Some (NewInternalError ''Failed to get prompt'' (Some (JStr err))))
                | (result, None) \<Rightarrow>
                    (Some (case result of None \<Rightarrow> JNull | Some res \<Rightarrow> res), None))))"

text \<open>
  \<^verbatim>\<open>RegisterHandlers\<close> stores the capabilities in the registry and registers its
  methods on a dispatcher whose handlers read the registry.
\<close>

definition RegisterHandlers ::
  "goenv \<Rightarrow> Registry \<Rightarrow> Registry rpcServer \<Rightarrow> Registry \<times> Registry rpcServer"
where
  "RegisterHandlers G r server =
     (let r = r\<lparr>reg_capabilities := buildCapabilities r\<rparr>;
          server = RegisterMethod MethodInitialize (handleInitialize G) server;
          server = RegisterMethod MethodPing handlePing server;
          server = (if cap_Tools (reg_capabilities r) \<noteq> None
                    then RegisterMethod MethodToolsCall (handleToolsCall G)
                           (RegisterMethod MethodToolsList (handleToolsList G) server)
                    else server);
          server = (if cap_Resources (reg_capabilities r) \<noteq> None
                    then RegisterMethod MethodResourcesRead (handleResourcesRead G)
                           (RegisterMethod MethodResourcesList (handleResourcesList G) server)
                    else server);
          server = (if cap_Prompts (reg_capabilities r) \<noteq> None
                    then RegisterMethod MethodPromptsGet (handlePromptsGet G)
                           (RegisterMethod MethodPromptsList (handlePromptsList G) server)
                    else server);
          server = RegisterMethod NotificationInitialized handleInitializedNotification server
      in (r, server))"

section \<open>Package mcp: the server\<close>

text \<open>
  The fields of \<^verbatim>\<open>mcp.Server\<close> that its handlers read are kept apart from the
  dispatcher it owns, so that a handler can be given them at the time of the call. The
  logger and the HTTP client are not modelled.
\<close>

record ServerState =
  registry :: Registry
  serverInfo :: ClientInfo
  instructions :: string
  capabilities :: ServerCapabilities

record Server =
  rpcServer :: "ServerState rpcServer"
  state :: ServerState

type_synonym ServerOption = "Server \<Rightarrow> Server"

definition WithInstructions :: "string \<Rightarrow> ServerOption" where
  "WithInstructions instr s = s\<lparr>state := (state s)\<lparr>instructions := instr\<rparr>\<rparr>"

definition NewServer :: "string \<Rightarrow> string \<Rightarrow> ServerOption list \<Rightarrow> Server" where
  "NewServer name version opts =
     (let info = \<lparr>ci_Name = name, ci_Version = version\<rparr>;
          s = \<lparr>rpcServer = rpc_NewServer,
               state = \<lparr>registry = NewRegistry info [], serverInfo = info, instructions = [],
                        capabilities = zero_ServerCapabilities\<rparr>\<rparr>
      in foldl (\<lambda>s opt. opt s) s opts)"

definition srv_RegisterTool :: "Tool \<Rightarrow> ToolHandler \<Rightarrow> Server \<Rightarrow> Server" where
  "srv_RegisterTool tool handler s =
     s\<lparr>state := (state s)\<lparr>registry := RegisterTool tool handler (registry (state s))\<rparr>\<rparr>"

definition srv_RegisterResource :: "Resource \<Rightarrow> ResourceHandler \<Rightarrow> Server \<Rightarrow> Server" where
  "srv_RegisterResource resource handler s =
     s\<lparr>state := (state s)\<lparr>registry := RegisterResource resource handler (registry (state s))\<rparr>\<rparr>"

definition srv_RegisterPrompt :: "Prompt \<Rightarrow> PromptHandler \<Rightarrow> Server \<Rightarrow> Server" where
  "srv_RegisterPrompt prompt handler s =
     s\<lparr>state := (state s)\<lparr>registry := RegisterPrompt prompt handler (registry (state s))\<rparr>\<rparr>"

definition ListTools :: "goenv \<Rightarrow> Server \<Rightarrow> Tool list" where
  "ListTools G s = range_values G (tools (registry (state s)))"

definition srv_handleInitialize :: "goenv \<Rightarrow> ServerState Handler" where
  "srv_handleInitialize G st params =
     (case Unmarshal_params (set_InitializeRequest_field G) zero_InitializeRequest params of
        Inl err \<Rightarrow>
          (None, Some (NewInvalidParamsError ''Invalid initialize params'' (Some (JStr (err_text G err)))))
      | Inr req \<Rightarrow>
          (Some (encode_InitializeResult ProtocolVersion (capabilities st) (serverInfo st)
                   (instructions st)), None))"

definition srv_handlePing :: "ServerState Handler" where
  "srv_handlePing st params = (Some (JObj []), None)"

definition srv_handleInitializedNotification :: "ServerState Handler" where
  "srv_handleInitializedNotification st params = (None, None)"

text \<open>
  Modelled from the spec: \<^verbatim>\<open>SetLevelParams\<close> and the \<^verbatim>\<open>LoggingLevel\<close> constants
  are not among the sources. The spec gives the parameters as \<^verbatim>\<open>{level}\<close> and the
  recognised levels as debug, info, notice, warning, error, critical, alert, emergency.
  Setting the level of the logger has no counterpart in the model.
\<close>

definition set_SetLevelParams_field :: "string \<Rightarrow> string \<times> json \<Rightarrow> unmarshal_error + string" where
  "set_SetLevelParams_field level kv =
     (case kv of (k, v) \<Rightarrow>
        if same_key k ''level'' then decode_string ''level'' v level else Inr level)"

definition levelMap :: "string list" where
  "levelMap = [''debug'', ''info'', ''notice'', ''warning'', ''error'', ''critical'', ''alert'',
               ''emergency'']"

definition handleSetLogLevel :: "goenv \<Rightarrow> ServerState Handler" where
  "handleSetLogLevel G st params =
     (case Unmarshal_params set_SetLevelParams_field [] params of
        Inl err \<Rightarrow>
          (None, Some (NewInvalidParamsError ''Invalid logging params'' (Some (JStr (err_text G err)))))
      | Inr level \<Rightarrow>
          if level \<notin> set levelMap
          then (None, Some (NewInvalidParamsError ''Unknown log level'' (Some (JStr level))))
          else (Some (JObj []), None))"

definition registerHandlers :: "goenv \<Rightarrow> Server \<Rightarrow> Server" where
  "registerHandlers G s =
     (let st = (state s)\<lparr>capabilities := buildCapabilities (registry (state s))\<rparr>;
          rpc = RegisterMethod MethodInitialize (srv_handleInitialize G) (rpcServer s);
          rpc = RegisterMethod MethodPing srv_handlePing rpc;
          rpc = (if cap_Tools (capabilities st) \<noteq> None
                 then RegisterMethod MethodToolsCall (\<lambda>st. handleToolsCall G (registry st))
                        (RegisterMethod MethodToolsList (\<lambda>st. handleToolsList G (registry st)) rpc)
                 else rpc);
          rpc = (if cap_Resources (capabilities st) \<noteq> None
                 then RegisterMethod MethodResourcesRead (\<lambda>st. handleResourcesRead G (registry st))
                        (RegisterMethod MethodResourcesList
                           (\<lambda>st. handleResourcesList G (registry st)) rpc)
                 else rpc);
          rpc = (if cap_Prompts (capabilities st) \<noteq> None
                 then RegisterMethod MethodPromptsGet (\<lambda>st. handlePromptsGet G (registry st))
                        (RegisterMethod MethodPromptsList (\<lambda>st. handlePromptsList G (registry st)) rpc)
                 else rpc);
          rpc = RegisterMethod NotificationInitialized srv_handleInitializedNotification rpc;
          rpc = RegisterMethod MethodLoggingSetLevel (handleSetLogLevel G) rpc
      in \<lparr>rpcServer = rpc, state = st\<rparr>)"

text \<open>\<^verbatim>\<open>Server.ServeStdio\<close>: wire the methods, then run the loop on the input.\<close>

definition srv_ServeStdio :: "goenv \<Rightarrow> Server \<Rightarrow> string \<Rightarrow> string list" where
  "srv_ServeStdio G s inp =
     (let s = registerHandlers G s in ServeStdio G (rpcServer s) (state s) inp [])"

section \<open>Sequences of operations\<close>

datatype registration =
    ATool Tool ToolHandler
  | AResource Resource ResourceHandler
  | APrompt Prompt PromptHandler

fun register :: "registration \<Rightarrow> Registry \<Rightarrow> Registry" where
  "register (ATool t h) r = RegisterTool t h r"
| "register (AResource x h) r = RegisterResource x h r"
| "register (APrompt p h) r = RegisterPrompt p h r"

fun srv_register :: "registration \<Rightarrow> Server \<Rightarrow> Server" where
  "srv_register (ATool t h) s = srv_RegisterTool t h s"
| "srv_register (AResource x h) s = srv_RegisterResource x h s"
| "srv_register (APrompt p h) s = srv_RegisterPrompt p h s"

fun register_all :: "registration list \<Rightarrow> Registry \<Rightarrow> Registry" where
  "register_all [] r = r"
| "register_all (a # as) r = register_all as (register a r)"

fun srv_register_all :: "registration list \<Rightarrow> Server \<Rightarrow> Server" where
  "srv_register_all [] s = s"
| "srv_register_all (a # as) s = srv_register_all as (srv_register a s)"

text \<open>A \<^verbatim>\<open>range\<close> loop over a map visits each of its keys once.\<close>

definition visits_once :: "goenv \<Rightarrow> (string \<times> 'v) list \<Rightarrow> bool" where
  "visits_once G m = (mset (range_order G (map fst m)) = mset (map fst m))"

text \<open>
  An operation on a registry is a registration, the wiring, or a call of one of the
  handlers wired on a dispatcher. It gives the registry afterwards and what the handler
  returned.
\<close>

datatype registry_op =
    OpRegister registration
  | OpRegisterHandlers
  | OpRead string "json option"

fun exec_op ::
  "goenv \<Rightarrow> Registry rpcServer \<Rightarrow> Registry \<Rightarrow> registry_op \<Rightarrow> Registry \<times> (iface \<times> Error option) option"
where
  "exec_op G s r (OpRegister a) = (register a r, None)"
| "exec_op G s r OpRegisterHandlers = (fst (RegisterHandlers G r s), None)"
| "exec_op G s r (OpRead m params) = (r, map_option (\<lambda>h. h r params) (handlers s m))"

fun run_ops :: "goenv \<Rightarrow> Registry rpcServer \<Rightarrow> Registry \<Rightarrow> registry_op list \<Rightarrow> Registry" where
  "run_ops G s r [] = r"
| "run_ops G s r (x # xs) = run_ops G s (fst (exec_op G s r x)) xs"

text \<open>The names, URIs and prompt names that a list of registrations registers.\<close>

fun tool_names :: "registration list \<Rightarrow> string list" where
  "tool_names [] = []"
| "tool_names (ATool t h # as) = tool_Name t # tool_names as"
| "tool_names (a # as) = tool_names as"

fun resource_uris :: "registration list \<Rightarrow> string list" where
  "resource_uris [] = []"
| "resource_uris (AResource x h # as) = res_URI x # resource_uris as"
| "resource_uris (a # as) = resource_uris as"

fun prompt_names :: "registration list \<Rightarrow> string list" where
  "prompt_names [] = []"
| "prompt_names (APrompt p h # as) = prompt_Name p # prompt_names as"
| "prompt_names (a # as) = prompt_names as"

text \<open>The key sets of each store and of its handler store agree.\<close>

definition registry_inv :: "Registry \<Rightarrow> bool" where
  "registry_inv r =
     (set (map fst (tools r)) = set (map fst (toolHandlers r)) \<and>
      set (map fst (resources r)) = set (map fst (resourceHandlers r)) \<and>
      set (map fst (prompts r)) = set (map fst (promptHandlers r)))"

text \<open>
  Every store holds one entry per key, and an entry is stored under its own name or URI.
\<close>

definition keyed :: "('v \<Rightarrow> string) \<Rightarrow> (string \<times> 'v) list \<Rightarrow> bool" where
  "keyed name m = (distinct (map fst m) \<and> list_all (\<lambda>(k, v). name v = k) m)"

definition registry_keyed :: "Registry \<Rightarrow> bool" where
  "registry_keyed r =
     (keyed tool_Name (tools r) \<and> distinct (map fst (toolHandlers r)) \<and>
      keyed res_URI (resources r) \<and> distinct (map fst (resourceHandlers r)) \<and>
      keyed prompt_Name (prompts r) \<and> distinct (map fst (promptHandlers r)))"

section \<open>Reading a response back\<close>

text \<open>
  \<^verbatim>\<open>json.Unmarshal\<close> into a \<^verbatim>\<open>Response\<close>, as a client written against these
  types does it. A number is stored in the \<^verbatim>\<open>int\<close> field \<^verbatim>\<open>code\<close> when it is
  written with digits only and a 64-bit integer holds it. A pointer field is set to nil by \<^verbatim>\<open>null\<close>; any other
  document is decoded into the struct it points to, a new one when the pointer is nil.
\<close>

definition zero_Error :: Error where
  "zero_Error = \<lparr>Code = 0, Message = [], Data = None\<rparr>"

definition zero_Response :: Response where
  "zero_Response = \<lparr>resp_JSONRPC = [], resp_Result = None, resp_Error = None, resp_ID = None\<rparr>"

definition decode_int :: "string \<Rightarrow> json \<Rightarrow> 64 word \<Rightarrow> unmarshal_error + 64 word" where
  "decode_int tag v old =
     (case v of
        JNull \<Rightarrow> Inr old
      | JNum (IntLit n) \<Rightarrow>
          if - (2 ^ 63) \<le> n \<and> n < 2 ^ 63 then Inr (word_of_int n) else Inl (UnmarshalTypeError tag)
      | _ \<Rightarrow> Inl (UnmarshalTypeError tag))"

definition set_Error_field :: "goenv \<Rightarrow> Error \<Rightarrow> string \<times> json \<Rightarrow> unmarshal_error + Error" where
  "set_Error_field G e kv =
     (case kv of (k, v) \<Rightarrow>
        if same_key k ''code'' then
          (case decode_int ''code'' v (Code e) of
             Inl err \<Rightarrow> Inl err | Inr c \<Rightarrow> Inr (e\<lparr>Code := c\<rparr>))
        else if same_key k ''message'' then
          (case decode_string ''message'' v (Message e) of
             Inl err \<Rightarrow> Inl err | Inr s \<Rightarrow> Inr (e\<lparr>Message := s\<rparr>))
        else if same_key k ''data'' then
          (case decode_iface G v of Inl err \<Rightarrow> Inl err | Inr d \<Rightarrow> Inr (e\<lparr>Data := d\<rparr>))
        else Inr e)"

definition set_Response_field ::
  "goenv \<Rightarrow> Response \<Rightarrow> string \<times> json \<Rightarrow> unmarshal_error + Response"
where
  "set_Response_field G r kv =
     (case kv of (k, v) \<Rightarrow>
        if same_key k ''jsonrpc'' then
          (case decode_string ''jsonrpc'' v (resp_JSONRPC r) of
             Inl err \<Rightarrow> Inl err | Inr s \<Rightarrow> Inr (r\<lparr>resp_JSONRPC := s\<rparr>))
        else if same_key k ''result'' then
          (case decode_iface G v of Inl err \<Rightarrow> Inl err | Inr x \<Rightarrow> Inr (r\<lparr>resp_Result := x\<rparr>))
        else if same_key k ''error'' then
          (if v = JNull then Inr (r\<lparr>resp_Error := None\<rparr>)
           else
             (case decode_struct (set_Error_field G)
                     (case resp_Error r of None \<Rightarrow> zero_Error | Some e \<Rightarrow> e) v of
                Inl err \<Rightarrow> Inl err | Inr e \<Rightarrow> Inr (r\<lparr>resp_Error := Some e\<rparr>)))
        else if same_key k ''id'' then
          (case decode_iface G v of Inl err \<Rightarrow> Inl err | Inr i \<Rightarrow> Inr (r\<lparr>resp_ID := i\<rparr>))
        else Inr r)"

definition Marshal_Response :: "goenv \<Rightarrow> Response \<Rightarrow> string" where
  "Marshal_Response G r = text_of G (encode_Response r)"

definition Unmarshal_Response :: "goenv \<Rightarrow> string \<Rightarrow> unmarshal_error + Response" where
  "Unmarshal_Response G line =
     (case parse_text G line of
        None \<Rightarrow> Inl (SyntaxError line)
      | Some v \<Rightarrow> decode_struct (set_Response_field G) zero_Response v)"

text \<open>
  A value of an \<^verbatim>\<open>interface{}\<close> field as decoding produces it: nil, or a value
  other than \<^verbatim>\<open>null\<close> made of bools, float64 numbers, strings, slices and maps.
\<close>

definition decoded :: "goenv \<Rightarrow> iface \<Rightarrow> bool" where
  "decoded G x = (case x of None \<Rightarrow> True | Some v \<Rightarrow> v \<noteq> JNull \<and> generic G v)"

definition decoded_Response :: "goenv \<Rightarrow> Response \<Rightarrow> bool" where
  "decoded_Response G r =
     (decoded G (resp_Result r) \<and> decoded G (resp_ID r) \<and>
      (case resp_Error r of None \<Rightarrow> True | Some e \<Rightarrow> decoded G (Data e)))"

text \<open>The spec's valid responses: exactly one of the result and the error is present.\<close>

definition valid_Response :: "Response \<Rightarrow> bool" where
  "valid_Response r = ((resp_Result r = None) \<noteq> (resp_Error r = None))"

section \<open>Package tools: the ping tool, and values for the examples\<close>

definition PingTool :: Tool where
  "PingTool =
     \<lparr>tool_Name = ''ping'', tool_Description = ''A simple ping tool that returns pong.'',
      tool_InputSchema = \<lparr>schema_Type = ''object'', Properties = [], Required = []\<rparr>\<rparr>"

definition PingHandler :: ToolHandler where
  "PingHandler arguments =
     (Some \<lparr>result_Content = Some [NewTextContent ''pong''], IsError = False\<rparr>, None)"

text \<open>For the examples: a tool, a resource and a prompt whose handlers fail.\<close>

definition failing_handler :: ToolHandler where
  "failing_handler arguments = (None, Some ''backend unavailable'')"

definition stock_tool :: Tool where
  "stock_tool =
     \<lparr>tool_Name = ''stock'', tool_Description = [],
      tool_InputSchema = \<lparr>schema_Type = ''object'', Properties = [], Required = []\<rparr>\<rparr>"

definition menu_resource :: Resource where
  "menu_resource = \<lparr>res_URI = ''store://menu'', res_Metadata = []\<rparr>"

definition greet_prompt :: Prompt where
  "greet_prompt = \<lparr>prompt_Name = ''greet'', prompt_Metadata = []\<rparr>"

text \<open>
  The lines of the examples, as they are on the wire, each with the document it is the
  text of: three requests, and responses as \<^verbatim>\<open>json.Marshal\<close> writes them.
\<close>

definition text_nope :: string where
  \<open>text_nope = ''{"jsonrpc":"2.0","method":"nope","id":2}''\<close>

definition text_ping_notification :: string where
  \<open>text_ping_notification = ''{"jsonrpc":"2.0","method":"ping"}''\<close>

definition text_big_id :: string where
  \<open>text_big_id = ''{"jsonrpc":"2.0","method":"ping","id":9007199254740993}''\<close>

definition text_nope_answer :: string where
  \<open>text_nope_answer =
     ''{"jsonrpc":"2.0","error":{"code":-32601,"message":"Method '' @ [CHR 0x27] @ ''nope'' @ [CHR 0x27]
       @ '' not found"},"id":2}''\<close>

definition text_big_id_answer :: string where
  \<open>text_big_id_answer = ''{"jsonrpc":"2.0","result":{},"id":9007199254740992}''\<close>

definition text_parse_error :: string where
  \<open>text_parse_error =
     ''{"jsonrpc":"2.0","error":{"code":-32700,"message":"Failed to unmarshal request","data":{"Offset":12}}}''\<close>

definition text_null_result :: string where
  \<open>text_null_result = ''{"jsonrpc":"2.0","result":null,"id":1}''\<close>

definition text_big_id_response :: string where
  \<open>text_big_id_response = ''{"jsonrpc":"2.0","result":{},"id":9007199254740993}''\<close>

definition text_read_error :: string where
  \<open>text_read_error =
     ''{"jsonrpc":"2.0","error":{"code":-32603,"message":"Failed to read resource","data":"backend unavailable"},"id":"a"}''\<close>

definition text_struct_result :: string where
  \<open>text_struct_result =
     ''{"jsonrpc":"2.0","result":{"tools":[{"name":"stock","inputSchema":{"type":"object"}}]},"id":"a"}''\<close>

definition wire :: "(string \<times> json) list" where
  "wire =
     [(text_nope,
       JObj [(''jsonrpc'', JStr ''2.0''), (''method'', JStr ''nope''), (''id'', JNum (IntLit 2))]),
      (text_ping_notification,
       JObj [(''jsonrpc'', JStr ''2.0''), (''method'', JStr ''ping'')]),
      (text_big_id,
       JObj [(''jsonrpc'', JStr ''2.0''), (''method'', JStr ''ping''),
             (''id'', JNum (IntLit 9007199254740993))]),
      (text_nope_answer,
       JObj [(''jsonrpc'', JStr ''2.0''),
             (''error'', JObj [(''code'', JNum (IntLit (- 32601))),
                               (''message'', JStr (''Method '' @ [CHR 0x27] @ ''nope'' @ [CHR 0x27] @ '' not found''))]),
             (''id'', JNum (IntLit 2))]),
      (text_big_id_answer,
       JObj [(''jsonrpc'', JStr ''2.0''), (''result'', JObj []),
             (''id'', JNum (IntLit 9007199254740992))]),
      (text_parse_error,
       JObj [(''jsonrpc'', JStr ''2.0''),
             (''error'', JObj [(''code'', JNum (IntLit (- 32700))),
                               (''message'', JStr ''Failed to unmarshal request''),
                               (''data'', JObj [(''Offset'', JNum (IntLit 12))])])]),
      (text_null_result,
       JObj [(''jsonrpc'', JStr ''2.0''), (''result'', JNull), (''id'', JNum (IntLit 1))]),
      (text_big_id_response,
       JObj [(''jsonrpc'', JStr ''2.0''), (''result'', JObj []),
             (''id'', JNum (IntLit 9007199254740993))]),
      (text_struct_result,
       JObj [(''jsonrpc'', JStr ''2.0''),
             (''result'', JObj [(''tools'',
                JArr [JObj [(''name'', JStr ''stock''),
                            (''inputSchema'', JObj [(''type'', JStr ''object'')])]])]),
             (''id'', JStr ''a'')]),
      (text_read_error,
       JObj [(''jsonrpc'', JStr ''2.0''),
             (''error'', JObj [(''code'', JNum (IntLit (- 32603))),
                               (''message'', JStr ''Failed to read resource''),
                               (''data'', JStr ''backend unavailable'')]),
             (''id'', JStr ''a'')])]"

definition line_nope :: string where
  "line_nope = text_nope @ [CHR 0x0A]"

definition line_ping_notification :: string where
  "line_ping_notification = text_ping_notification @ [CHR 0x0A]"

definition line_big_id :: string where
  "line_big_id = text_big_id @ [CHR 0x0A]"

definition line_broken :: string where
  \<open>line_broken = ''{"jsonrpc":'' @ [CHR 0x0A]\<close>

text \<open>
  The literal with the exact value of a float64. \<^verbatim>\<open>strconv\<close> writes this literal for
  the integers of magnitude up to \<open>2 ^ 53\<close>, which are the numbers of the examples.
\<close>

fun exact_literal :: "float64 \<Rightarrow> number" where
  "exact_literal (Float64 m e) =
     (if 0 \<le> e then IntLit (m * 2 ^ nat e)
      else if m mod 2 ^ nat (- e) = 0 then IntLit (m div 2 ^ nat (- e))
      else DecLit (m * 5 ^ nat (- e)) e)"

text \<open>
  The environment of the examples reads and writes the lines above, reports a syntax
  error as the offset at which the input ended, visits a map in reverse order of
  insertion, and writes a float64 with its exact value.
\<close>

definition demo_env :: goenv where
  "demo_env =
     \<lparr>parse_text = map_of (map (\<lambda>(t, d). (t @ [CHR 0x0A], d)) wire),
      text_of = (\<lambda>v. case find (\<lambda>(t, d). d = v) wire of None \<Rightarrow> [] | Some (t, d) \<Rightarrow> t),
      err_text = (\<lambda>e. ''unexpected end of JSON input''),
      err_value = (\<lambda>e. JObj [(''Offset'', JNum (IntLit 12))]),
      range_order = rev,
      write_float64 = exact_literal\<rparr>"

definition failing_resource :: ResourceHandler where
  "failing_resource uri = (None, Some ''backend unavailable'')"

definition failing_prompt :: PromptHandler where
  "failing_prompt arguments = (None, Some ''backend unavailable'')"

definition demo_setup :: Server where
  "demo_setup =
     srv_RegisterPrompt greet_prompt failing_prompt
       (srv_RegisterResource menu_resource failing_resource
          (srv_RegisterTool stock_tool failing_handler
             (srv_RegisterTool PingTool PingHandler
                (NewServer ''mcp-server-store'' ''0.1.0''
                   [WithInstructions ''A store management MCP server.'']))))"

definition demo_server :: Server where
  "demo_server = registerHandlers demo_env demo_setup"

definition demo_info :: ClientInfo where
  "demo_info = \<lparr>ci_Name = ''mcp-server-store'', ci_Version = ''0.1.0''\<rparr>"

definition demo_registry :: Registry where
  "demo_registry = RegisterTool PingTool PingHandler (NewRegistry demo_info [])"

definition demo_dispatcher :: "Registry rpcServer" where
  "demo_dispatcher = RegisterMethod MethodToolsList (handleToolsList demo_env) rpc_NewServer"

definition demo_ops :: "registry_op list" where
  "demo_ops =
     [OpRegister (ATool PingTool PingHandler), OpRead MethodToolsList None, OpRegisterHandlers,
      OpRegister (ATool stock_tool failing_handler)]"

definition demo_call :: "string \<Rightarrow> string \<Rightarrow> string \<Rightarrow> Request" where
  "demo_call m key x =
     \<lparr>req_JSONRPC = ''2.0'', req_Method = m, req_Params = Some (JObj [(key, JStr x)]),
      req_ID = Some (JNum (IntLit 1))\<rparr>"

definition demo_regs :: "registration list" where
  "demo_regs =
     [ATool PingTool PingHandler, ATool stock_tool failing_handler, ATool PingTool PingHandler,
      AResource menu_resource failing_resource, APrompt greet_prompt failing_prompt]"

definition demo_list :: "string \<Rightarrow> Request" where
  "demo_list m = \<lparr>req_JSONRPC = ''2.0'', req_Method = m, req_Params = None, req_ID = Some (JNum (IntLit 1))\<rparr>"

definition bare_server :: Server where
  "bare_server = registerHandlers demo_env (srv_register_all [] (NewServer ''mcp-server-store'' ''0.1.0'' []))"

text \<open>
  A response whose result is a nil pointer of a concrete type, as \<^verbatim>\<open>handleToolsCall\<close>
  returns it for a tool handler that returns nil and no error; a response whose id is an
  integer that no float64 holds; a response whose result is a struct, the list of tools;
  a response with an error and a number as id; and a response with an error, its data and
  a string id.
\<close>

definition null_result_response :: Response where
  "null_result_response = NewSuccessResponse (Some (JNum (IntLit 1))) (Some JNull)"

definition big_id_response :: Response where
  "big_id_response =
     NewSuccessResponse (Some (JNum (IntLit 9007199254740993))) (Some (JObj []))"

definition struct_result_response :: Response where
  "struct_result_response =
     NewSuccessResponse (Some (JStr ''a'')) (Some (encode_ToolListResult [stock_tool]))"

definition nope_response :: Response where
  "nope_response =
     NewErrorResponse (Some (JNum (IntLit 2)))
       (NewMethodNotFoundError (''Method '' @ [CHR 0x27] @ ''nope'' @ [CHR 0x27] @ '' not found'') None)"

definition error_response :: Response where
  "error_response =
     NewErrorResponse (Some (JStr ''a''))
       (NewInternalError ''Failed to read resource'' (Some (JStr ''backend unavailable'')))"

section \<open>Numbers and decoded values\<close>

lemma float64_of_small:
  "float64_of (IntLit 1) = Some (Float64 4503599627370496 (- 52))"
  "float64_of (IntLit 2) = Some (Float64 4503599627370496 (- 51))"
  "float64_of (IntLit 12) = Some (Float64 6755399441055744 (- 49))"
  by code_simp+

text \<open>The integer \<open>2 ^ 53 + 1\<close> is read as the float64 \<open>2 ^ 53\<close>.\<close>

lemma float64_of_big:
  "float64_of (IntLit 9007199254740993) = Some (Float64 4503599627370496 1)"
  "float64_of (IntLit 9007199254740992) = Some (Float64 4503599627370496 1)"
  by code_simp+

lemma exact_literal_small:
  "exact_literal (Float64 4503599627370496 (- 52)) = IntLit 1"
  "exact_literal (Float64 4503599627370496 (- 51)) = IntLit 2"
  "exact_literal (Float64 6755399441055744 (- 49)) = IntLit 12"
  "exact_literal (Float64 4503599627370496 1) = IntLit 9007199254740992"
  by simp_all

text \<open>Keys that select a field: in another case, with the long s, with the Kelvin sign.\<close>

lemma same_key_folds:
  "same_key ''JsonRPC'' ''jsonrpc''"
  "same_key ([CHR ''j'', CHR 0xC5, CHR 0xBF] @ ''onrpc'') ''jsonrpc''"
  "same_key ([CHR 0xE2, CHR 0x84, CHR 0xAA] @ ''ind'') ''kind''"
  "\<not> same_key ''jsonrpc2'' ''jsonrpc''"
  by (simp_all add: same_key_def lower_def)

lemma update_new: "k \<notin> fst ` set m \<Longrightarrow> AList.update k v m = m @ [(k, v)]"
  by (induction m) auto

lemma decode_members_generic:
  assumes "\<And>k v. (k, v) \<in> set kvs \<Longrightarrow> decode_value G v = Inr v"
    and "distinct (map fst kvs)" and "fst ` set m \<inter> fst ` set kvs = {}"
  shows "decode_members G m kvs = Inr (m @ kvs)"
  using assms
proof (induction kvs arbitrary: m)
  case Nil
  then show ?case by simp
next
  case (Cons a kvs)
  obtain k v where a: "a = (k, v)" by (cases a)
  have v: "decode_value G v = Inr v"
    using Cons.prems(1)[of k v] a by simp
  have k: "k \<notin> fst ` set m"
    using Cons.prems(3) a by auto
  have "decode_members G (m @ [(k, v)]) kvs = Inr ((m @ [(k, v)]) @ kvs)"
  proof (rule Cons.IH)
    show "decode_value G v' = Inr v'" if "(k', v') \<in> set kvs" for k' v'
      using Cons.prems(1)[of k' v'] that by simp
    show "distinct (map fst kvs)"
      using Cons.prems(2) by simp
    show "fst ` set (m @ [(k, v)]) \<inter> fst ` set kvs = {}"
      using Cons.prems(2,3) a by auto
  qed
  then show ?case
    by (simp add: a v update_new[OF k])
qed

lemma generic_members_iff: "generic_members G kvs = (\<forall>(k, v) \<in> set kvs. generic G v)"
  by (induction kvs) auto

lemma generic_elements_iff: "generic_elements G xs = (\<forall>x \<in> set xs. generic G x)"
  by (induction xs) auto

lemma decode_elements_generic:
  "(\<And>x. x \<in> set xs \<Longrightarrow> decode_value G x = Inr x) \<Longrightarrow> decode_elements G xs = Inr xs"
  by (induction xs) simp_all

text \<open>Decoding reproduces a generic value.\<close>

lemma decode_generic: "generic G v \<Longrightarrow> decode_value G v = Inr v"
proof (induction v)
  case (JNum n)
  then show ?case by (simp split: option.splits)
next
  case (JArr xs)
  then show ?case
    by (simp add: generic_elements_iff decode_elements_generic)
next
  case (JObj kvs)
  have "decode_members G [] kvs = Inr ([] @ kvs)"
  proof (rule decode_members_generic)
    show "decode_value G v = Inr v" if "(k, v) \<in> set kvs" for k v
      using JObj that by (fastforce simp: generic_members_iff)
    show "distinct (map fst kvs)"
      using JObj.prems by simp
    show "fst ` set [] \<inter> fst ` set kvs = {}"
      by simp
  qed
  moreover have "sort_key fst kvs = kvs"
    using JObj.prems by (simp add: sort_key_id_if_sorted)
  ultimately show ?case by simp
qed simp_all

lemma decode_iface_generic:
  "generic G v \<Longrightarrow> decode_iface G v = Inr (if v = JNull then None else Some v)"
  by (simp add: decode_iface_def decode_generic)

lemma decode_iface_decoded: "decoded G (Some v) \<Longrightarrow> decode_iface G v = Inr (Some v)"
  by (simp add: decoded_def decode_iface_generic)

text \<open>A decoded value other than \<^verbatim>\<open>null\<close> is stored as it is decoded.\<close>

lemma decode_value_null: "decode_value G v = Inr JNull \<Longrightarrow> v = JNull"
  by (cases v) (auto split: option.splits sum.splits)

section \<open>The transport loop, line by line\<close>

declare ServeStdio.simps [simp del]

lemma ReadBytes_shorter: "ReadBytes inp = Some (l, rest) \<Longrightarrow> length rest < length inp"
  by (induction inp arbitrary: l rest) (auto split: if_splits option.splits)

text \<open>What the loop writes is appended to what has been written before.\<close>

lemma ServeStdio_append: "ServeStdio L s st inp out = out @ ServeStdio L s st inp []"
proof (induction "length inp" arbitrary: inp out rule: less_induct)
  case less
  show ?case
  proof (cases "ReadBytes inp")
    case None
    then show ?thesis by (simp add: ServeStdio.simps[of L s st inp])
  next
    case (Some p)
    obtain line rest where p: "p = (line, rest)" by (cases p)
    have "length rest < length inp"
      using Some p by (auto dest: ReadBytes_shorter)
    then have IH: "\<And>out. ServeStdio L s st rest out = out @ ServeStdio L s st rest []"
      by (rule less)
    show ?thesis
      using Some p IH[of "writeResponse L out r" for r] IH[of "writeResponse L [] r" for r] IH[of out]
      by (simp add: ServeStdio.simps[of L s st inp] writeResponse_def Let_def split: sum.splits)
  qed
qed

lemma ServeStdio_end: "ReadBytes inp = None \<Longrightarrow> ServeStdio L s st inp out = out"
  by (simp add: ServeStdio.simps[of L s st inp])

text \<open>What the loop writes for the next line of the input.\<close>

lemma ServeStdio_line:
  assumes "ReadBytes inp = Some (line, rest)"
  shows "ServeStdio L s st inp [] =
           (case Unmarshal_Request L line of
              Inl err \<Rightarrow>
                [text_of L (encode_Response
                   (NewErrorResponse None
                      (NewParseError ''Failed to unmarshal request'' (Some (err_value L err)))))
                 @ [CHR 0x0A]]
            | Inr req \<Rightarrow>
                if req_ID req = None then []
                else [text_of L (encode_Response (HandleRequest s st req)) @ [CHR 0x0A]])
           @ ServeStdio L s st rest []"
  using assms ServeStdio_append[of L s st rest "writeResponse L [] r" for r]
  by (simp add: ServeStdio.simps[of L s st inp] IsNotification_def writeResponse_def Let_def
      split: sum.splits)

lemma HandleRequest_ID: "resp_ID (HandleRequest s st req) = req_ID req"
  by (simp add: HandleRequest_def NewErrorResponse_def NewSuccessResponse_def NewResponse_def
      split: option.splits prod.splits)

lemmas demo_server_defs =
  demo_server_def demo_setup_def registerHandlers_def NewServer_def WithInstructions_def
  srv_RegisterTool_def srv_RegisterResource_def srv_RegisterPrompt_def
  RegisterTool_def RegisterResource_def RegisterPrompt_def NewRegistry_def
  buildCapabilities_def zero_ServerCapabilities_def RegisterMethod_def rpc_NewServer_def
  PingTool_def stock_tool_def menu_resource_def greet_prompt_def
  MethodInitialize_def MethodPing_def MethodToolsList_def MethodToolsCall_def
  MethodResourcesList_def MethodResourcesRead_def MethodPromptsList_def MethodPromptsGet_def
  NotificationInitialized_def MethodLoggingSetLevel_def

lemmas decode_defs =
  decode_struct_def decode_string_def decode_iface_def same_key_def lower_def

lemmas text_defs =
  text_nope_def text_ping_notification_def text_big_id_def text_nope_answer_def
  text_big_id_answer_def text_parse_error_def text_null_result_def text_big_id_response_def
  text_read_error_def text_struct_result_def

lemma demo_env_fields:
  "write_float64 demo_env = exact_literal"
  "err_value demo_env e = JObj [(''Offset'', JNum (IntLit 12))]"
  "range_order demo_env = rev"
  by (simp_all add: demo_env_def)

lemma demo_parse:
  "parse_text demo_env line_nope =
     Some (JObj [(''jsonrpc'', JStr ''2.0''), (''method'', JStr ''nope''), (''id'', JNum (IntLit 2))])"
  "parse_text demo_env line_ping_notification =
     Some (JObj [(''jsonrpc'', JStr ''2.0''), (''method'', JStr ''ping'')])"
  "parse_text demo_env line_big_id =
     Some (JObj [(''jsonrpc'', JStr ''2.0''), (''method'', JStr ''ping''),
                 (''id'', JNum (IntLit 9007199254740993))])"
  "parse_text demo_env line_broken = None"
  by (simp_all add: demo_env_def wire_def line_nope_def line_ping_notification_def line_big_id_def
      line_broken_def text_defs)

lemma demo_text:
  "text_of demo_env
     (JObj [(''jsonrpc'', JStr ''2.0''),
            (''error'', JObj [(''code'', JNum (IntLit (- 32601))),
                              (''message'', JStr (''Method '' @ [CHR 0x27] @ ''nope'' @ [CHR 0x27] @ '' not found''))]),
            (''id'', JNum (IntLit 2))]) = text_nope_answer"
  "text_of demo_env
     (JObj [(''jsonrpc'', JStr ''2.0''), (''result'', JObj []),
            (''id'', JNum (IntLit 9007199254740992))]) = text_big_id_answer"
  "text_of demo_env
     (JObj [(''jsonrpc'', JStr ''2.0''),
            (''error'', JObj [(''code'', JNum (IntLit (- 32700))),
                              (''message'', JStr ''Failed to unmarshal request''),
                              (''data'', JObj [(''Offset'', JNum (IntLit 12))])])]) = text_parse_error"
  by (simp_all add: demo_env_def wire_def)

lemmas demo_text_simps = demo_text[simplified]

lemma demo_Unmarshal_ping:
  "Unmarshal_Request demo_env line_ping_notification =
     Inr \<lparr>req_JSONRPC = ''2.0'', req_Method = ''ping'', req_Params = None, req_ID = None\<rparr>"
  by (simp add: Unmarshal_Request_def demo_parse set_Request_field_def zero_Request_def decode_defs)

lemma demo_Unmarshal_nope:
  "Unmarshal_Request demo_env line_nope =
     Inr \<lparr>req_JSONRPC = ''2.0'', req_Method = ''nope'', req_Params = None,
          req_ID = Some (JNum (IntLit 2))\<rparr>"
  by (simp add: Unmarshal_Request_def demo_parse set_Request_field_def zero_Request_def decode_defs
      float64_of_small demo_env_fields)

lemma demo_no_nope: "handlers (rpcServer demo_server) ''nope'' = None"
  by (simp add: demo_server_defs Let_def)

lemma demo_nope_document:
  "encode_Response (HandleRequest (rpcServer demo_server) (state demo_server)
     \<lparr>req_JSONRPC = ''2.0'', req_Method = ''nope'', req_Params = None,
        req_ID = Some (JNum (IntLit 2))\<rparr>)
   = JObj [(''jsonrpc'', JStr ''2.0''),
           (''error'', JObj [(''code'', JNum (IntLit (- 32601))),
                             (''message'', JStr (''Method '' @ [CHR 0x27] @ ''nope'' @ [CHR 0x27] @ '' not found''))]),
           (''id'', JNum (IntLit 2))]"
  using demo_no_nope
  by (simp add: HandleRequest_def Validate_def NewErrorResponse_def NewResponse_def
      NewMethodNotFoundError_def ErrorMethodNotFound_def encode_Response_def encode_Error_def
      omitempty_def)

lemma demo_nope_output:
  "ServeStdio demo_env (rpcServer demo_server) (state demo_server) line_nope [] =
     [text_nope_answer @ [CHR 0x0A]]"
proof -
  have "ReadBytes line_nope = Some (line_nope, [])"
    by (simp add: line_nope_def text_defs)
  from ServeStdio_line[OF this, of demo_env "rpcServer demo_server" "state demo_server"]
  show ?thesis
    by (simp add: demo_Unmarshal_nope demo_nope_document demo_text_simps ServeStdio_end)
qed

text \<open>
  C7. A request with a non-null id, the version \<^verbatim>\<open>"2.0"\<close> and a non-empty method
  for which the dispatcher has no handler is answered by an error response with code
  -32601 (MethodNotFound) and the id of the request.
\<close>

theorem method_not_found:
  assumes "req_ID req = Some i" and "req_JSONRPC req = ''2.0''" and "req_Method req \<noteq> []"
    and "handlers s (req_Method req) = None"
  shows "resp_ID (HandleRequest s st req) = Some i \<and>
         resp_Result (HandleRequest s st req) = None \<and>
         map_option Code (resp_Error (HandleRequest s st req)) = Some ErrorMethodNotFound \<and>
         sint ErrorMethodNotFound = - 32601"
  using assms
  by (simp add: HandleRequest_def Validate_def NewErrorResponse_def NewResponse_def
      NewMethodNotFoundError_def ErrorMethodNotFound_def)

theorem method_not_found_witness:
  "HandleRequest (rpcServer demo_server) (state demo_server)
     \<lparr>req_JSONRPC = ''2.0'', req_Method = ''nope'', req_Params = None,
        req_ID = Some (JNum (IntLit 2))\<rparr>
   = \<lparr>resp_JSONRPC = ''2.0'', resp_Result = None,
      resp_Error = Some \<lparr>Code = - 32601, Message = ''Method '' @ [CHR 0x27] @ ''nope'' @ [CHR 0x27] @ '' not found'',
                         Data = None\<rparr>,
      resp_ID = Some (JNum (IntLit 2))\<rparr>"
proof -
  let ?req = "\<lparr>req_JSONRPC = ''2.0'', req_Method = ''nope'', req_Params = None,
                req_ID = Some (JNum (IntLit 2))\<rparr>"
  have h: "handlers (rpcServer demo_server) ''nope'' = None"
    by (simp add: demo_server_defs Let_def)
  have "resp_ID (HandleRequest (rpcServer demo_server) (state demo_server) ?req)
          = Some (JNum (IntLit 2)) \<and>
        resp_Result (HandleRequest (rpcServer demo_server) (state demo_server) ?req) = None \<and>
        map_option Code (resp_Error (HandleRequest (rpcServer demo_server) (state demo_server) ?req))
          = Some ErrorMethodNotFound \<and>
        sint ErrorMethodNotFound = - 32601"
    by (rule method_not_found[of ?req "JNum (IntLit 2)" "rpcServer demo_server" "state demo_server"])
       (simp_all add: h)
  then show ?thesis
    using h
    by (simp add: HandleRequest_def Validate_def NewErrorResponse_def NewResponse_def
        NewMethodNotFoundError_def ErrorMethodNotFound_def)
qed

section \<open>The id of a request and of its response\<close>

lemma key_id:
  "same_key k ''id'' \<Longrightarrow> \<not> same_key k ''jsonrpc'' \<and> \<not> same_key k ''method'' \<and> \<not> same_key k ''params''"
  by (simp add: same_key_def lower_def)

text \<open>
  The id of a decoded request is what its last member selecting the id field decodes to;
  without such a member it is the id the struct had before.
\<close>

lemma decoded_request_id:
  assumes "decode_fields (set_Request_field L) r kvs = Inr req"
  shows "case last_member ''id'' kvs of
           None \<Rightarrow> req_ID req = req_ID r
         | Some v \<Rightarrow> decode_iface L v = Inr (req_ID req)"
  using assms
proof (induction kvs arbitrary: r)
  case Nil
  then show ?case by simp
next
  case (Cons kv kvs)
  obtain k v where kv: "kv = (k, v)" by (cases kv)
  from Cons.prems obtain r' where r': "set_Request_field L r (k, v) = Inr r'"
    and rest: "decode_fields (set_Request_field L) r' kvs = Inr req"
    by (auto simp: kv split: sum.splits)
  note IH = Cons.IH[OF rest]
  show ?case
  proof (cases "last_member ''id'' kvs")
    case (Some w)
    with IH show ?thesis by (simp add: kv)
  next
    case None
    with IH have same: "req_ID req = req_ID r'" by simp
    show ?thesis
    proof (cases "same_key k ''id''")
      case True
      with r' key_id[OF True] have "decode_iface L v = Inr (req_ID r')"
        by (auto simp: set_Request_field_def split: sum.splits)
      with None True same show ?thesis by (simp add: kv)
    next
      case False
      with r' have "req_ID r' = req_ID r"
        by (auto simp: set_Request_field_def split: sum.splits if_splits)
      with None False same show ?thesis by (simp add: kv)
    qed
  qed
qed

text \<open>
  C2, as the code has it. Let the next line of the input be an object that decodes to a
  request. When it has no id member, or a null one, the loop writes nothing for it,
  whatever its handler returns. Otherwise the loop writes exactly one line, the
  document of the response, whose last member is the id as it was decoded into an
  \<^verbatim>\<open>interface{}\<close>: the id of the request itself when decoding reproduces it, as it does
  a string and a number that is written back as it was read. In both cases the loop goes
  on with the rest of the input.
\<close>

theorem notification_silent_request_answered:
  assumes "ReadBytes inp = Some (line, rest)"
    and "parse_text L line = Some (JObj kvs)"
    and "decode_fields (set_Request_field L) zero_Request kvs = Inr req"
  shows "(last_member ''id'' kvs = None \<or> last_member ''id'' kvs = Some JNull \<longrightarrow>
            req_ID req = None \<and> ServeStdio L s st inp [] = ServeStdio L s st rest []) \<and>
         (\<forall>v. last_member ''id'' kvs = Some v \<and> v \<noteq> JNull \<longrightarrow>
            (\<exists>i. decode_value L v = Inr i \<and> req_ID req = Some i \<and> (generic L v \<longrightarrow> i = v) \<and>
               ServeStdio L s st inp [] =
                 (text_of L (encode_Response (HandleRequest s st req)) @ [CHR 0x0A])
                   # ServeStdio L s st rest [] \<and>
               encode_Response (HandleRequest s st req) =
                 JObj ([(''jsonrpc'', JStr ''2.0'')]
                       @ omitempty ''result'' (resp_Result (HandleRequest s st req))
                       @ omitempty ''error'' (map_option encode_Error (resp_Error (HandleRequest s st req)))
                       @ [(''id'', i)])))"
proof -
  have u: "Unmarshal_Request L line = Inr req"
    using assms(2,3) by (simp add: Unmarshal_Request_def decode_struct_def)
  note step = ServeStdio_line[OF assms(1), of L s st, unfolded u]
  note idm = decoded_request_id[OF assms(3)]
  have version: "resp_JSONRPC (HandleRequest s st req) = ''2.0''"
    by (simp add: HandleRequest_def NewErrorResponse_def NewSuccessResponse_def NewResponse_def
        split: option.splits prod.splits)
  have silent: "req_ID req = None \<and> ServeStdio L s st inp [] = ServeStdio L s st rest []"
    if "last_member ''id'' kvs = None \<or> last_member ''id'' kvs = Some JNull"
  proof -
    from that idm have "req_ID req = None"
      by (auto simp: zero_Request_def decode_iface_def)
    with step show ?thesis by simp
  qed
  have answered: "\<exists>i. decode_value L v = Inr i \<and> req_ID req = Some i \<and> (generic L v \<longrightarrow> i = v) \<and>
               ServeStdio L s st inp [] =
                 (text_of L (encode_Response (HandleRequest s st req)) @ [CHR 0x0A])
                   # ServeStdio L s st rest [] \<and>
               encode_Response (HandleRequest s st req) =
                 JObj ([(''jsonrpc'', JStr ''2.0'')]
                       @ omitempty ''result'' (resp_Result (HandleRequest s st req))
                       @ omitempty ''error'' (map_option encode_Error (resp_Error (HandleRequest s st req)))
                       @ [(''id'', i)])"
    if v: "last_member ''id'' kvs = Some v" and nn: "v \<noteq> JNull" for v
  proof -
    from v idm have d: "decode_iface L v = Inr (req_ID req)" by simp
    then obtain i where i: "decode_value L v = Inr i"
      and rid: "req_ID req = (if i = JNull then None else Some i)"
      by (auto simp: decode_iface_def split: sum.splits)
    from i nn have "i \<noteq> JNull"
      by (auto dest: decode_value_null)
    with rid have rid': "req_ID req = Some i" by simp
    have g: "generic L v \<longrightarrow> i = v"
      using i by (auto dest: decode_generic)
    have doc: "encode_Response (HandleRequest s st req) =
                 JObj ([(''jsonrpc'', JStr ''2.0'')]
                       @ omitempty ''result'' (resp_Result (HandleRequest s st req))
                       @ omitempty ''error'' (map_option encode_Error (resp_Error (HandleRequest s st req)))
                       @ [(''id'', i)])"
      by (simp add: encode_Response_def version HandleRequest_ID rid' omitempty_def[of "''id''"])
    from step rid' have "ServeStdio L s st inp [] =
                 (text_of L (encode_Response (HandleRequest s st req)) @ [CHR 0x0A])
                   # ServeStdio L s st rest []"
      by simp
    with i rid' g doc show ?thesis by blast
  qed
  from silent answered show ?thesis by blast
qed

lemma demo_fields_ping:
  "decode_fields (set_Request_field demo_env) zero_Request
     [(''jsonrpc'', JStr ''2.0''), (''method'', JStr ''ping'')]
   = Inr \<lparr>req_JSONRPC = ''2.0'', req_Method = ''ping'', req_Params = None, req_ID = None\<rparr>"
  by (simp add: set_Request_field_def zero_Request_def decode_defs)

lemma demo_fields_nope:
  "decode_fields (set_Request_field demo_env) zero_Request
     [(''jsonrpc'', JStr ''2.0''), (''method'', JStr ''nope''), (''id'', JNum (IntLit 2))]
   = Inr \<lparr>req_JSONRPC = ''2.0'', req_Method = ''nope'', req_Params = None,
          req_ID = Some (JNum (IntLit 2))\<rparr>"
  by (simp add: set_Request_field_def zero_Request_def decode_defs float64_of_small
      demo_env_fields)

lemma demo_fields_big_id:
  "decode_fields (set_Request_field demo_env) zero_Request
     [(''jsonrpc'', JStr ''2.0''), (''method'', JStr ''ping''),
      (''id'', JNum (IntLit 9007199254740993))]
   = Inr \<lparr>req_JSONRPC = ''2.0'', req_Method = ''ping'', req_Params = None,
          req_ID = Some (JNum (IntLit 9007199254740992))\<rparr>"
  by (simp add: set_Request_field_def zero_Request_def decode_defs float64_of_big
      demo_env_fields)

lemma demo_ping_handler:
  "handlers (rpcServer demo_server) ''ping'' = Some srv_handlePing"
  by (simp add: demo_server_defs Let_def)

theorem notification_silent_request_answered_witness:
  "ServeStdio demo_env (rpcServer demo_server) (state demo_server)
     (line_ping_notification @ line_nope) [] = [text_nope_answer @ [CHR 0x0A]] \<and>
   fst (srv_handlePing (state demo_server) None) = Some (JObj [])"
proof -
  let ?s = "rpcServer demo_server" and ?st = "state demo_server"
  have r1: "ReadBytes (line_ping_notification @ line_nope) = Some (line_ping_notification, line_nope)"
    by (simp add: line_ping_notification_def text_defs)
  have r2: "ReadBytes line_nope = Some (line_nope, [])"
    by (simp add: line_nope_def text_defs)
  have l1: "last_member ''id'' [(''jsonrpc'', JStr ''2.0''), (''method'', JStr ''ping'')] = None"
    by (simp add: same_key_def lower_def)
  have l2: "last_member ''id''
              [(''jsonrpc'', JStr ''2.0''), (''method'', JStr ''nope''), (''id'', JNum (IntLit 2))]
            = Some (JNum (IntLit 2))"
    by (simp add: same_key_def lower_def)
  have g: "generic demo_env (JNum (IntLit 2))"
    by (simp add: float64_of_small demo_env_fields)
  from notification_silent_request_answered[OF r1 demo_parse(2) demo_fields_ping, of ?s ?st] l1
  have a: "ServeStdio demo_env ?s ?st (line_ping_notification @ line_nope) [] =
             ServeStdio demo_env ?s ?st line_nope []"
    by simp
  from notification_silent_request_answered[OF r2 demo_parse(1) demo_fields_nope, of ?s ?st] l2 g
  have b: "ServeStdio demo_env ?s ?st line_nope [] =
             (text_of demo_env (encode_Response (HandleRequest ?s ?st
                \<lparr>req_JSONRPC = ''2.0'', req_Method = ''nope'', req_Params = None,
                   req_ID = Some (JNum (IntLit 2))\<rparr>)) @ [CHR 0x0A])
               # ServeStdio demo_env ?s ?st [] []"
    by auto
  from a b show ?thesis
    by (simp add: demo_nope_document demo_text_simps ServeStdio_end srv_handlePing_def)
qed

text \<open>
  C2 as stated fails for an id that no float64 holds: the request with id
  9007199254740993 is answered by one line whose id is 9007199254740992.
\<close>

theorem rounded_id_counterexample:
  "parse_text demo_env line_big_id =
     Some (JObj [(''jsonrpc'', JStr ''2.0''), (''method'', JStr ''ping''),
                 (''id'', JNum (IntLit 9007199254740993))]) \<and>
   ServeStdio demo_env (rpcServer demo_server) (state demo_server) line_big_id [] =
     [text_of demo_env
        (JObj [(''jsonrpc'', JStr ''2.0''), (''result'', JObj []),
               (''id'', JNum (IntLit 9007199254740992))]) @ [CHR 0x0A]] \<and>
   text_of demo_env
     (JObj [(''jsonrpc'', JStr ''2.0''), (''result'', JObj []),
            (''id'', JNum (IntLit 9007199254740992))]) = text_big_id_answer"
proof -
  let ?s = "rpcServer demo_server" and ?st = "state demo_server"
  have r: "ReadBytes line_big_id = Some (line_big_id, [])"
    by (simp add: line_big_id_def text_defs)
  have u: "Unmarshal_Request demo_env line_big_id =
             Inr \<lparr>req_JSONRPC = ''2.0'', req_Method = ''ping'', req_Params = None,
                  req_ID = Some (JNum (IntLit 9007199254740992))\<rparr>"
    by (simp add: Unmarshal_Request_def demo_parse decode_struct_def demo_fields_big_id
        del: decode_fields.simps)
  have d: "encode_Response (HandleRequest ?s ?st
             \<lparr>req_JSONRPC = ''2.0'', req_Method = ''ping'', req_Params = None,
                req_ID = Some (JNum (IntLit 9007199254740992))\<rparr>)
           = JObj [(''jsonrpc'', JStr ''2.0''), (''result'', JObj []),
                   (''id'', JNum (IntLit 9007199254740992))]"
    using demo_ping_handler
    by (simp add: HandleRequest_def Validate_def srv_handlePing_def NewSuccessResponse_def
        NewResponse_def encode_Response_def omitempty_def)
  from ServeStdio_line[OF r, of demo_env ?s ?st]
  show ?thesis
    by (simp add: u d demo_parse demo_text_simps ServeStdio_end)
qed

section \<open>A line that is not JSON\<close>

text \<open>
  C3, as the code has it. When the next line of the input is not a JSON document, the
  loop writes exactly one line, an error response with code -32700 (ParseError) whose id
  is nil, and goes on with the rest of the input. The document written has the members
  \<^verbatim>\<open>jsonrpc\<close> and \<^verbatim>\<open>error\<close> only: the nil id is left out, not written as
  \<^verbatim>\<open>null\<close>.
\<close>

theorem parse_error_answered:
  assumes "ReadBytes inp = Some (line, rest)" and "parse_text L line = None"
  defines "resp \<equiv> NewErrorResponse None
                    (NewParseError ''Failed to unmarshal request''
                       (Some (err_value L (SyntaxError line))))"
  defines "doc \<equiv> JObj [(''jsonrpc'', JStr ''2.0''),
                      (''error'', JObj [(''code'', JNum (IntLit (- 32700))),
                                        (''message'', JStr ''Failed to unmarshal request''),
                                        (''data'', err_value L (SyntaxError line))])]"
  shows "ServeStdio L s st inp [] = (text_of L doc @ [CHR 0x0A]) # ServeStdio L s st rest [] \<and>
         encode_Response resp = doc \<and>
         resp_ID resp = None \<and> resp_Result resp = None \<and>
         map_option Code (resp_Error resp) = Some ErrorParse \<and> sint ErrorParse = - 32700"
proof -
  have d: "encode_Response resp = doc"
    unfolding resp_def doc_def
    by (simp add: NewErrorResponse_def NewResponse_def NewParseError_def ErrorParse_def
        encode_Response_def encode_Error_def omitempty_def)
  from ServeStdio_line[OF assms(1), of L s st] assms(2)
  have "ServeStdio L s st inp [] =
          (text_of L (encode_Response resp) @ [CHR 0x0A]) # ServeStdio L s st rest []"
    unfolding resp_def by (simp add: Unmarshal_Request_def)
  with d show ?thesis
    unfolding resp_def
    by (simp add: NewErrorResponse_def NewResponse_def NewParseError_def ErrorParse_def)
qed

theorem parse_error_answered_witness:
  "ServeStdio demo_env (rpcServer demo_server) (state demo_server) (line_broken @ line_nope) [] =
     [text_parse_error @ [CHR 0x0A], text_nope_answer @ [CHR 0x0A]]"
proof -
  let ?s = "rpcServer demo_server" and ?st = "state demo_server"
  have r1: "ReadBytes (line_broken @ line_nope) = Some (line_broken, line_nope)"
    by (simp add: line_broken_def)
  show ?thesis
    using parse_error_answered[OF r1 demo_parse(4), of ?s ?st]
    by (simp add: demo_nope_output demo_env_fields demo_text_simps)
qed

text \<open>
  C3 as stated fails: the response written for a line that is not JSON has no
  \<^verbatim>\<open>id\<close> member at all, where the claim has an id that is null.
\<close>

theorem parse_error_without_id_counterexample:
  "ServeStdio demo_env (rpcServer demo_server) (state demo_server) line_broken [] =
     [text_of demo_env
        (JObj [(''jsonrpc'', JStr ''2.0''),
               (''error'', JObj [(''code'', JNum (IntLit (- 32700))),
                                 (''message'', JStr ''Failed to unmarshal request''),
                                 (''data'', JObj [(''Offset'', JNum (IntLit 12))])])])
      @ [CHR 0x0A]] \<and>
   map_of [(''jsonrpc'', JStr ''2.0''),
           (''error'', JObj [(''code'', JNum (IntLit (- 32700))),
                             (''message'', JStr ''Failed to unmarshal request''),
                             (''data'', JObj [(''Offset'', JNum (IntLit 12))])])] ''id'' = None \<and>
   text_of demo_env
     (JObj [(''jsonrpc'', JStr ''2.0''),
            (''error'', JObj [(''code'', JNum (IntLit (- 32700))),
                              (''message'', JStr ''Failed to unmarshal request''),
                              (''data'', JObj [(''Offset'', JNum (IntLit 12))])])])
     = text_parse_error"
proof -
  let ?s = "rpcServer demo_server" and ?st = "state demo_server"
  have r: "ReadBytes line_broken = Some (line_broken, [])"
    by (simp add: line_broken_def)
  have u: "Unmarshal_Request demo_env line_broken = Inl (SyntaxError line_broken)"
    by (simp add: Unmarshal_Request_def demo_parse)
  from ServeStdio_line[OF r, of demo_env ?s ?st]
  show ?thesis
    by (simp add: u demo_env_fields demo_text_simps ServeStdio_end NewErrorResponse_def
        NewResponse_def NewParseError_def ErrorParse_def encode_Response_def encode_Error_def
        omitempty_def)
qed

section \<open>The registry\<close>

text \<open>
  C6. The capability set has its tools field iff the registry holds a tool when it is
  built, its resources field iff it holds a resource, its prompts field iff it holds a
  prompt, and always its logging field; this set is what both wirings store.
\<close>

theorem capabilities_follow_registry:
  "(cap_Tools (buildCapabilities r) \<noteq> None) = (length (tools r) > 0) \<and>
   (cap_Resources (buildCapabilities r) \<noteq> None) = (length (resources r) > 0) \<and>
   (cap_Prompts (buildCapabilities r) \<noteq> None) = (length (prompts r) > 0) \<and>
   cap_Logging (buildCapabilities r) \<noteq> None \<and>
   reg_capabilities (fst (RegisterHandlers G r server)) = buildCapabilities r \<and>
   capabilities (state (registerHandlers G s)) = buildCapabilities (registry (state s))"
  by (simp add: buildCapabilities_def zero_ServerCapabilities_def RegisterHandlers_def
      registerHandlers_def Let_def)

subsection \<open>Stores as association lists\<close>

lemma keys_update: "fst ` set (AList.update k v m) = insert k (fst ` set m)"
  by (simp add: dom_update)

lemma list_all_update: "list_all P m \<Longrightarrow> P (k, v) \<Longrightarrow> list_all P (AList.update k v m)"
  by (induction m) auto

lemma keyed_update: "keyed name m \<Longrightarrow> keyed name (AList.update (name v) v m)"
  unfolding keyed_def by (simp add: distinct_update list_all_update)

lemma keyed_lookup: "keyed name m \<Longrightarrow> map_of m k = Some v \<Longrightarrow> name v = k"
  unfolding keyed_def by (induction m) (auto split: if_splits)

lemma one_entry:
  "distinct (map fst m) \<Longrightarrow> k \<in> set (map fst m) \<Longrightarrow> length (filter (\<lambda>kv. fst kv = k) m) = 1"
proof (induction m)
  case Nil
  then show ?case by simp
next
  case (Cons a m)
  show ?case
  proof (cases "fst a = k")
    case True
    have "fst kv \<noteq> k" if "kv \<in> set m" for kv
    proof
      assume "fst kv = k"
      with that have "k \<in> fst ` set m" by blast
      with True Cons.prems(1) show False by simp
    qed
    then have "filter (\<lambda>kv. fst kv = k) m = []"
      by (simp add: filter_empty_conv)
    with True show ?thesis by simp
  next
    case False
    with Cons show ?thesis by auto
  qed
qed

lemma range_values_subset: "set (range_values G m) \<subseteq> snd ` set m"
  by (force simp: range_values_def List.map_filter_def dest: map_of_SomeD)

lemma range_values_all:
  assumes "visits_once G m"
  shows "range_values G m = map (\<lambda>k. the (map_of m k)) (range_order G (map fst m))"
proof -
  have "set (range_order G (map fst m)) = set (map fst m)"
    using assms unfolding visits_once_def by (metis set_mset_mset)
  then have "\<forall>k \<in> set (range_order G (map fst m)). map_of m k \<noteq> None"
    by (auto simp: map_of_eq_None_iff)
  then show ?thesis
    unfolding range_values_def
    by (simp add: List.map_filter_def filter_id_conv)
qed

lemma length_range_values:
  assumes "visits_once G m"
  shows "length (range_values G m) = length m"
proof -
  have "length (range_order G (map fst m)) = length (map fst m)"
    using assms unfolding visits_once_def by (metis size_mset)
  then show ?thesis by (simp add: range_values_all[OF assms])
qed

lemma names_range_values:
  assumes "visits_once G m" and "keyed name m"
  shows "set (map name (range_values G m)) = set (map fst m)"
proof -
  have s: "set (range_order G (map fst m)) = set (map fst m)"
    using assms(1) unfolding visits_once_def by (metis set_mset_mset)
  have "name (the (map_of m k)) = k" if "k \<in> set (map fst m)" for k
  proof -
    from that have "map_of m k \<noteq> None"
      by (simp add: map_of_eq_None_iff)
    then obtain v where "map_of m k = Some v"
      by blast
    with assms(2) show ?thesis by (auto dest: keyed_lookup)
  qed
  then have "map (\<lambda>k. name (the (map_of m k))) (range_order G (map fst m))
             = range_order G (map fst m)"
    using s by (intro map_idI) simp
  then show ?thesis
    using s by (simp add: range_values_all[OF assms(1)] comp_def)
qed

subsection \<open>Invariants of the registry\<close>

lemma registry_inv_New: "registry_inv (NewRegistry info instr)"
  by (simp add: registry_inv_def NewRegistry_def)

lemma registry_keyed_New: "registry_keyed (NewRegistry info instr)"
  by (simp add: registry_keyed_def keyed_def NewRegistry_def)

lemma registry_inv_register: "registry_inv r \<Longrightarrow> registry_inv (register a r)"
  by (cases a)
     (simp_all add: registry_inv_def RegisterTool_def RegisterResource_def RegisterPrompt_def
        keys_update)

lemma registry_keyed_register: "registry_keyed r \<Longrightarrow> registry_keyed (register a r)"
  by (cases a)
     (simp_all add: registry_keyed_def RegisterTool_def RegisterResource_def RegisterPrompt_def
        keyed_update distinct_update)

lemma stores_RegisterHandlers:
  "tools (fst (RegisterHandlers G r s)) = tools r"
  "toolHandlers (fst (RegisterHandlers G r s)) = toolHandlers r"
  "resources (fst (RegisterHandlers G r s)) = resources r"
  "resourceHandlers (fst (RegisterHandlers G r s)) = resourceHandlers r"
  "prompts (fst (RegisterHandlers G r s)) = prompts r"
  "promptHandlers (fst (RegisterHandlers G r s)) = promptHandlers r"
  by (simp_all add: RegisterHandlers_def Let_def)

lemma registry_inv_exec_op: "registry_inv r \<Longrightarrow> registry_inv (fst (exec_op G s r x))"
  by (cases x) (simp_all add: registry_inv_register, simp add: registry_inv_def stores_RegisterHandlers)

lemma registry_keyed_exec_op: "registry_keyed r \<Longrightarrow> registry_keyed (fst (exec_op G s r x))"
  by (cases x)
     (simp_all add: registry_keyed_register, simp add: registry_keyed_def stores_RegisterHandlers)

lemma registry_inv_run_ops: "registry_inv r \<Longrightarrow> registry_inv (run_ops G s r xs)"
  by (induction xs arbitrary: r) (simp_all add: registry_inv_exec_op)

lemma registry_keyed_run_ops: "registry_keyed r \<Longrightarrow> registry_keyed (run_ops G s r xs)"
  by (induction xs arbitrary: r) (simp_all add: registry_keyed_exec_op)

lemma registry_inv_register_all: "registry_inv r \<Longrightarrow> registry_inv (register_all as r)"
  by (induction as arbitrary: r) (simp_all add: registry_inv_register)

lemma registry_keyed_register_all: "registry_keyed r \<Longrightarrow> registry_keyed (register_all as r)"
  by (induction as arbitrary: r) (simp_all add: registry_keyed_register)

lemma listed_has_one_handler:
  assumes "registry_inv r" and "registry_keyed r" and "t \<in> set (range_values G (tools r))"
  shows "length (filter (\<lambda>kh. fst kh = tool_Name t) (toolHandlers r)) = 1"
proof -
  from assms(3) obtain k where k: "(k, t) \<in> set (tools r)"
    using range_values_subset[of G "tools r"] by auto
  with assms(2) have "tool_Name t = k"
    by (auto simp: registry_keyed_def keyed_def list_all_iff)
  with k have "tool_Name t \<in> set (map fst (tools r))"
    by force
  with assms(1) have "tool_Name t \<in> set (map fst (toolHandlers r))"
    by (simp add: registry_inv_def)
  with assms(2) show ?thesis
    by (intro one_entry) (simp_all add: registry_keyed_def)
qed

text \<open>
  C10. The key sets of the three stores and of their handler stores agree in the new
  registry, every operation (a registration, the wiring, a call of a handler) keeps
  them equal, so they agree in every registry that a sequence of operations reaches from
  the new one, and there every listed tool has exactly one handler under its name.
\<close>

theorem registry_keys_agree:
  "registry_inv (NewRegistry info instr) \<and>
   (registry_inv r \<longrightarrow> registry_inv (fst (exec_op G s r x))) \<and>
   registry_inv (run_ops G s (NewRegistry info instr) xs) \<and>
   (\<forall>t \<in> set (range_values G (tools (run_ops G s (NewRegistry info instr) xs))).
      length (filter (\<lambda>kh. fst kh = tool_Name t)
                (toolHandlers (run_ops G s (NewRegistry info instr) xs))) = 1)"
proof -
  let ?r = "run_ops G s (NewRegistry info instr) xs"
  have "registry_inv ?r"
    by (simp add: registry_inv_New registry_inv_run_ops)
  moreover have "registry_keyed ?r"
    by (simp add: registry_keyed_New registry_keyed_run_ops)
  ultimately have "\<forall>t \<in> set (range_values G (tools ?r)).
      length (filter (\<lambda>kh. fst kh = tool_Name t) (toolHandlers ?r)) = 1"
    by (blast intro: listed_has_one_handler)
  then show ?thesis
    by (simp add: registry_inv_New registry_inv_exec_op registry_inv_run_ops)
qed

theorem registry_keys_agree_witness:
  "registry_inv demo_registry \<and>
   registry_inv (fst (exec_op demo_env demo_dispatcher demo_registry
                        (OpRegister (ATool stock_tool failing_handler)))) \<and>
   PingTool \<in> set (range_values demo_env
                      (tools (run_ops demo_env demo_dispatcher (NewRegistry demo_info []) demo_ops))) \<and>
   length (filter (\<lambda>kh. fst kh = tool_Name PingTool)
             (toolHandlers (run_ops demo_env demo_dispatcher (NewRegistry demo_info []) demo_ops))) = 1"
proof -
  note T = registry_keys_agree[of demo_info "[]" demo_registry demo_env demo_dispatcher
      "OpRegister (ATool stock_tool failing_handler)" demo_ops]
  have inv1: "registry_inv demo_registry"
    by (simp add: demo_registry_def registry_inv_def RegisterTool_def NewRegistry_def)
  have mem: "PingTool \<in> set (range_values demo_env
               (tools (run_ops demo_env demo_dispatcher (NewRegistry demo_info []) demo_ops)))"
    by (simp add: demo_ops_def RegisterHandlers_def Let_def RegisterTool_def NewRegistry_def
        range_values_def demo_env_def PingTool_def stock_tool_def)
  from T inv1 have a: "registry_inv (fst (exec_op demo_env demo_dispatcher demo_registry
                        (OpRegister (ATool stock_tool failing_handler))))"
    by blast
  from T mem have b: "length (filter (\<lambda>kh. fst kh = tool_Name PingTool)
             (toolHandlers (run_ops demo_env demo_dispatcher (NewRegistry demo_info []) demo_ops))) = 1"
    by blast
  from inv1 a mem b show ?thesis by blast
qed

section \<open>The wired server\<close>

lemma NewServer_options:
  "rpcServer (foldl (\<lambda>s opt. opt s) s (map WithInstructions is)) = rpcServer s \<and>
   registry (state (foldl (\<lambda>s opt. opt s) s (map WithInstructions is))) = registry (state s)"
  by (induction "is" arbitrary: s) (simp_all add: WithInstructions_def)

lemma NewServer_fresh:
  "rpcServer (NewServer name version (map WithInstructions is)) = rpc_NewServer"
  "registry (state (NewServer name version (map WithInstructions is))) =
     NewRegistry \<lparr>ci_Name = name, ci_Version = version\<rparr> []"
  by (simp_all add: NewServer_def Let_def NewServer_options)

lemma srv_register_all_fields:
  "rpcServer (srv_register_all as s) = rpcServer s \<and>
   registry (state (srv_register_all as s)) = register_all as (registry (state s))"
proof (induction as arbitrary: s)
  case Nil
  show ?case by simp
next
  case (Cons a as)
  show ?case
    by (cases a)
       (simp_all add: Cons srv_RegisterTool_def srv_RegisterResource_def srv_RegisterPrompt_def)
qed

lemma registerHandlers_registry: "registry (state (registerHandlers G s)) = registry (state s)"
  by (simp add: registerHandlers_def Let_def)

lemmas method_defs =
  MethodInitialize_def MethodPing_def MethodToolsList_def MethodToolsCall_def
  MethodResourcesList_def MethodResourcesRead_def MethodPromptsList_def MethodPromptsGet_def
  NotificationInitialized_def MethodLoggingSetLevel_def

text \<open>
  Which of the capability-conditional methods a server has after the wiring, when it had
  none before.
\<close>

lemma wired_methods:
  assumes "rpcServer s = rpc_NewServer"
  defines "r \<equiv> registry (state s)"
  shows "handlers (rpcServer (registerHandlers G s)) MethodToolsList =
           (if tools r = [] then None else Some (\<lambda>st. handleToolsList G (registry st)))"
    and "handlers (rpcServer (registerHandlers G s)) MethodToolsCall =
           (if tools r = [] then None else Some (\<lambda>st. handleToolsCall G (registry st)))"
    and "handlers (rpcServer (registerHandlers G s)) MethodResourcesList =
           (if resources r = [] then None else Some (\<lambda>st. handleResourcesList G (registry st)))"
    and "handlers (rpcServer (registerHandlers G s)) MethodResourcesRead =
           (if resources r = [] then None else Some (\<lambda>st. handleResourcesRead G (registry st)))"
    and "handlers (rpcServer (registerHandlers G s)) MethodPromptsList =
           (if prompts r = [] then None else Some (\<lambda>st. handlePromptsList G (registry st)))"
    and "handlers (rpcServer (registerHandlers G s)) MethodPromptsGet =
           (if prompts r = [] then None else Some (\<lambda>st. handlePromptsGet G (registry st)))"
  using assms(1) unfolding r_def
  by (simp_all add: registerHandlers_def Let_def buildCapabilities_def zero_ServerCapabilities_def
      RegisterMethod_def rpc_NewServer_def method_defs)

text \<open>A well-formed request for a method is answered by what the method's handler returns.\<close>

lemma HandleRequest_handler:
  assumes "req_JSONRPC req = ''2.0''" and "req_Method req = m" and "m \<noteq> []"
    and "handlers s m = Some h"
  shows "HandleRequest s st req =
           (case h st (req_Params req) of
              (result, Some jsonErr) \<Rightarrow> NewErrorResponse (req_ID req) jsonErr
            | (result, None) \<Rightarrow> NewSuccessResponse (req_ID req) result)"
  using assms by (simp add: HandleRequest_def Validate_def)

lemma HandleRequest_no_handler:
  assumes "req_JSONRPC req = ''2.0''" and "req_Method req = m" and "m \<noteq> []"
    and "handlers s m = None"
  shows "HandleRequest s st req =
           NewErrorResponse (req_ID req)
             (NewMethodNotFoundError (''Method '' @ [CHR 0x27] @ m @ [CHR 0x27] @ '' not found'') None)"
  using assms by (simp add: HandleRequest_def Validate_def)

lemma stores_nonempty:
  assumes "registry_inv r"
  shows "map_of (toolHandlers r) k = Some h \<Longrightarrow> tools r \<noteq> []"
    and "map_of (resourceHandlers r) k = Some hr \<Longrightarrow> resources r \<noteq> []"
    and "map_of (promptHandlers r) k = Some hp \<Longrightarrow> prompts r \<noteq> []"
  using assms unfolding registry_inv_def
  by (auto dest!: map_of_SomeD)

lemma wired_some:
  defines "r \<equiv> \<lambda>s. registry (state s)"
  shows "tools (r s) \<noteq> [] \<Longrightarrow>
           handlers (rpcServer (registerHandlers G s)) MethodToolsList =
             Some (\<lambda>st. handleToolsList G (registry st)) \<and>
           handlers (rpcServer (registerHandlers G s)) MethodToolsCall =
             Some (\<lambda>st. handleToolsCall G (registry st))"
    and "resources (r s) \<noteq> [] \<Longrightarrow>
           handlers (rpcServer (registerHandlers G s)) MethodResourcesList =
             Some (\<lambda>st. handleResourcesList G (registry st)) \<and>
           handlers (rpcServer (registerHandlers G s)) MethodResourcesRead =
             Some (\<lambda>st. handleResourcesRead G (registry st))"
    and "prompts (r s) \<noteq> [] \<Longrightarrow>
           handlers (rpcServer (registerHandlers G s)) MethodPromptsList =
             Some (\<lambda>st. handlePromptsList G (registry st)) \<and>
           handlers (rpcServer (registerHandlers G s)) MethodPromptsGet =
             Some (\<lambda>st. handlePromptsGet G (registry st))"
  unfolding r_def
  by (simp_all add: registerHandlers_def Let_def buildCapabilities_def zero_ServerCapabilities_def
      RegisterMethod_def method_defs)

text \<open>
  C1. On a server wired after its registrations, a \<^verbatim>\<open>tools/call\<close> request whose
  parameters name a registered tool, and whose handler returns an error, is answered by a
  successful response: no JSON-RPC error, and a result with \<^verbatim>\<open>isError\<close> true whose
  content is one text block holding the message of the error.
\<close>

theorem tool_failure_is_result:
  fixes G :: goenv
  assumes "registry_inv (registry (state s0))"
    and "map_of (toolHandlers (registry (state s0))) T = Some handler"
    and "req_JSONRPC req = ''2.0''" and "req_Method req = MethodToolsCall"
    and "Unmarshal_params (set_ToolCallParams_field G) zero_ToolCallParams (req_Params req) = Inr p"
    and "call_Name p = T"
    and "handler (call_Arguments p) = (res, Some msg)"
  defines "s \<equiv> registerHandlers G s0"
  shows "HandleRequest (rpcServer s) (state s) req =
           NewSuccessResponse (req_ID req)
             (Some (encode_ToolCallResult
                      \<lparr>result_Content = Some [NewTextContent msg], IsError = True\<rparr>)) \<and>
         resp_Error (HandleRequest (rpcServer s) (state s) req) = None \<and>
         encode_ToolCallResult \<lparr>result_Content = Some [NewTextContent msg], IsError = True\<rparr> =
           JObj [(''content'', JArr [JObj ((''type'', JStr ''text'') # omit_string ''text'' msg)]),
                 (''isError'', JBool True)]"
proof -
  have "tools (registry (state s0)) \<noteq> []"
    using assms(1,2) by (rule stores_nonempty)
  then have h: "handlers (rpcServer s) MethodToolsCall = Some (\<lambda>st. handleToolsCall G (registry st))"
    unfolding s_def by (simp add: wired_some)
  have r: "registry (state s) = registry (state s0)"
    unfolding s_def by (rule registerHandlers_registry)
  have "handleToolsCall G (registry (state s)) (req_Params req) =
          (Some (encode_ToolCallResult
                   \<lparr>result_Content = Some [NewTextContent msg], IsError = True\<rparr>), None)"
    using assms(2,5,6,7) by (simp add: handleToolsCall_def r)
  then have "HandleRequest (rpcServer s) (state s) req =
           NewSuccessResponse (req_ID req)
             (Some (encode_ToolCallResult
                      \<lparr>result_Content = Some [NewTextContent msg], IsError = True\<rparr>))"
    using HandleRequest_handler[OF assms(3,4) _ h, of "state s"]
    by (simp add: MethodToolsCall_def)
  then show ?thesis
    by (simp add: NewSuccessResponse_def NewResponse_def encode_ToolCallResult_def
        encode_Content_def NewTextContent_def omit_string_def omit_bool_def)
qed

lemma demo_setup_inv: "registry_inv (registry (state demo_setup))"
  by (simp add: registry_inv_def demo_server_defs Let_def)

theorem tool_failure_is_result_witness:
  "HandleRequest (rpcServer demo_server) (state demo_server) (demo_call ''tools/call'' ''name'' ''stock'') =
     \<lparr>resp_JSONRPC = ''2.0'',
      resp_Result = Some (JObj [(''content'', JArr [JObj [(''type'', JStr ''text''),
                                                         (''text'', JStr ''backend unavailable'')]]),
                                (''isError'', JBool True)]),
      resp_Error = None, resp_ID = Some (JNum (IntLit 1))\<rparr>"
proof -
  have a: "map_of (toolHandlers (registry (state demo_setup))) ''stock'' = Some failing_handler"
    by (simp add: demo_server_defs Let_def)
  have b: "Unmarshal_params (set_ToolCallParams_field demo_env) zero_ToolCallParams
             (req_Params (demo_call ''tools/call'' ''name'' ''stock''))
           = Inr \<lparr>call_Name = ''stock'', call_Arguments = None\<rparr>"
    by (simp add: demo_call_def Unmarshal_params_def set_ToolCallParams_field_def
        zero_ToolCallParams_def decode_defs)
  show ?thesis
    using tool_failure_is_result[OF demo_setup_inv a _ _ b, of None "''backend unavailable''"]
    by (simp add: demo_call_def MethodToolsCall_def failing_handler_def demo_server_def
        NewSuccessResponse_def NewResponse_def omit_string_def)
qed

text \<open>
  C5. On a server wired while it holds at least one tool, a \<^verbatim>\<open>tools/call\<close> request
  whose parameters parse and name no registered tool is answered by a JSON-RPC error with
  code -32602 (InvalidParams): not by -32603 (InternalError), and not by a result.
\<close>

theorem unknown_tool_invalid_params:
  fixes G :: goenv
  assumes "tools (registry (state s0)) \<noteq> []"
    and "req_JSONRPC req = ''2.0''" and "req_Method req = MethodToolsCall"
    and "Unmarshal_params (set_ToolCallParams_field G) zero_ToolCallParams (req_Params req) = Inr p"
    and "map_of (toolHandlers (registry (state s0))) (call_Name p) = None"
  defines "s \<equiv> registerHandlers G s0"
  shows "HandleRequest (rpcServer s) (state s) req =
           NewErrorResponse (req_ID req)
             (NewInvalidParamsError (''Tool '' @ quoted (call_Name p) @ '' not found'') None) \<and>
         resp_Result (HandleRequest (rpcServer s) (state s) req) = None \<and>
         map_option Code (resp_Error (HandleRequest (rpcServer s) (state s) req))
           = Some ErrorInvalidParams \<and>
         sint ErrorInvalidParams = - 32602 \<and> ErrorInvalidParams \<noteq> ErrorInternal"
proof -
  have h: "handlers (rpcServer s) MethodToolsCall = Some (\<lambda>st. handleToolsCall G (registry st))"
    unfolding s_def using assms(1) by (simp add: wired_some)
  have r: "registry (state s) = registry (state s0)"
    unfolding s_def by (rule registerHandlers_registry)
  have "handleToolsCall G (registry (state s)) (req_Params req) =
          (None, Some (NewInvalidParamsError (''Tool '' @ quoted (call_Name p) @ '' not found'') None))"
    using assms(4,5) by (simp add: handleToolsCall_def r)
  then have "HandleRequest (rpcServer s) (state s) req =
           NewErrorResponse (req_ID req)
             (NewInvalidParamsError (''Tool '' @ quoted (call_Name p) @ '' not found'') None)"
    using HandleRequest_handler[OF assms(2,3) _ h, of "state s"]
    by (simp add: MethodToolsCall_def)
  then show ?thesis
    by (simp add: NewErrorResponse_def NewResponse_def NewInvalidParamsError_def
        ErrorInvalidParams_def ErrorInternal_def)
qed

theorem unknown_tool_invalid_params_witness:
  "HandleRequest (rpcServer demo_server) (state demo_server) (demo_call ''tools/call'' ''name'' ''refund'') =
     \<lparr>resp_JSONRPC = ''2.0'', resp_Result = None,
      resp_Error = Some \<lparr>Code = - 32602, Message = ''Tool '' @ quoted ''refund'' @ '' not found'',
                         Data = None\<rparr>,
      resp_ID = Some (JNum (IntLit 1))\<rparr>"
proof -
  have a: "tools (registry (state demo_setup)) \<noteq> []"
    by (simp add: demo_server_defs Let_def)
  have b: "Unmarshal_params (set_ToolCallParams_field demo_env) zero_ToolCallParams
             (req_Params (demo_call ''tools/call'' ''name'' ''refund''))
           = Inr \<lparr>call_Name = ''refund'', call_Arguments = None\<rparr>"
    by (simp add: demo_call_def Unmarshal_params_def set_ToolCallParams_field_def
        zero_ToolCallParams_def decode_defs)
  have c: "map_of (toolHandlers (registry (state demo_setup)))
             (call_Name \<lparr>call_Name = ''refund'', call_Arguments = None\<rparr>) = None"
    by (simp add: demo_server_defs Let_def)
  show ?thesis
    using unknown_tool_invalid_params[OF a _ _ b c]
    by (simp add: demo_call_def MethodToolsCall_def demo_server_def NewErrorResponse_def
        NewResponse_def NewInvalidParamsError_def ErrorInvalidParams_def)
qed

text \<open>
  C4. On a server wired after its registrations, a \<^verbatim>\<open>resources/read\<close> request for a
  registered URI whose handler returns an error, and a \<^verbatim>\<open>prompts/get\<close> request for a
  registered prompt whose handler returns an error, are answered by a JSON-RPC error with
  code -32603 (InternalError) and no result.
\<close>

theorem read_failure_is_internal_error:
  fixes G :: goenv
  assumes "registry_inv (registry (state s0))" and "req_JSONRPC req = ''2.0''"
  defines "s \<equiv> registerHandlers G s0"
  shows "(req_Method req = MethodResourcesRead \<and>
          Unmarshal_params set_ReadResourceParams_field zero_ReadResourceParams (req_Params req)
            = Inr p \<and>
          map_of (resourceHandlers (registry (state s0))) (read_URI p) = Some rhandler \<and>
          rhandler (read_URI p) = (res, Some msg) \<longrightarrow>
            HandleRequest (rpcServer s) (state s) req =
              NewErrorResponse (req_ID req)
                (NewInternalError ''Failed to read resource'' (Some (JStr msg)))) \<and>
         (req_Method req = MethodPromptsGet \<and>
          Unmarshal_params set_GetPromptParams_field zero_GetPromptParams (req_Params req)
            = Inr q \<and>
          map_of (promptHandlers (registry (state s0))) (get_Name q) = Some phandler \<and>
          phandler (get_Arguments q) = (res, Some msg) \<longrightarrow>
            HandleRequest (rpcServer s) (state s) req =
              NewErrorResponse (req_ID req)
                (NewInternalError ''Failed to get prompt'' (Some (JStr msg)))) \<and>
         resp_Result (NewErrorResponse i (NewInternalError m d)) = None \<and>
         map_option Code (resp_Error (NewErrorResponse i (NewInternalError m d))) = Some ErrorInternal \<and>
         sint ErrorInternal = - 32603"
proof -
  have r: "registry (state s) = registry (state s0)"
    unfolding s_def by (rule registerHandlers_registry)
  have res: "HandleRequest (rpcServer s) (state s) req =
              NewErrorResponse (req_ID req)
                (NewInternalError ''Failed to read resource'' (Some (JStr msg)))"
    if m: "req_Method req = MethodResourcesRead"
      and u: "Unmarshal_params set_ReadResourceParams_field zero_ReadResourceParams (req_Params req)
            = Inr p"
      and l: "map_of (resourceHandlers (registry (state s0))) (read_URI p) = Some rhandler"
      and f: "rhandler (read_URI p) = (res, Some msg)"
  proof -
    have "resources (registry (state s0)) \<noteq> []"
      using assms(1) l by (rule stores_nonempty)
    then have h: "handlers (rpcServer s) MethodResourcesRead =
                    Some (\<lambda>st. handleResourcesRead G (registry st))"
      unfolding s_def by (simp add: wired_some)
    have "handleResourcesRead G (registry (state s)) (req_Params req) =
            (None, Some (NewInternalError ''Failed to read resource'' (Some (JStr msg))))"
      using u l f by (simp add: handleResourcesRead_def r)
    then show ?thesis
      using HandleRequest_handler[OF assms(2) m _ h, of "state s"]
      by (simp add: MethodResourcesRead_def)
  qed
  have pro: "HandleRequest (rpcServer s) (state s) req =
              NewErrorResponse (req_ID req)
                (NewInternalError ''Failed to get prompt'' (Some (JStr msg)))"
    if m: "req_Method req = MethodPromptsGet"
      and u: "Unmarshal_params set_GetPromptParams_field zero_GetPromptParams (req_Params req)
            = Inr q"
      and l: "map_of (promptHandlers (registry (state s0))) (get_Name q) = Some phandler"
      and f: "phandler (get_Arguments q) = (res, Some msg)"
  proof -
    have "prompts (registry (state s0)) \<noteq> []"
      using assms(1) l by (rule stores_nonempty)
    then have h: "handlers (rpcServer s) MethodPromptsGet =
                    Some (\<lambda>st. handlePromptsGet G (registry st))"
      unfolding s_def by (simp add: wired_some)
    have "handlePromptsGet G (registry (state s)) (req_Params req) =
            (None, Some (NewInternalError ''Failed to get prompt'' (Some (JStr msg))))"
      using u l f by (simp add: handlePromptsGet_def r)
    then show ?thesis
      using HandleRequest_handler[OF assms(2) m _ h, of "state s"]
      by (simp add: MethodPromptsGet_def)
  qed
  show ?thesis
    using res pro
    by (simp add: NewErrorResponse_def NewResponse_def NewInternalError_def ErrorInternal_def)
qed

theorem read_failure_is_internal_error_witness:
  "HandleRequest (rpcServer demo_server) (state demo_server)
     (demo_call ''resources/read'' ''uri'' ''store://menu'') =
     \<lparr>resp_JSONRPC = ''2.0'', resp_Result = None,
      resp_Error = Some \<lparr>Code = - 32603, Message = ''Failed to read resource'',
                         Data = Some (JStr ''backend unavailable'')\<rparr>,
      resp_ID = Some (JNum (IntLit 1))\<rparr> \<and>
   HandleRequest (rpcServer demo_server) (state demo_server)
     (demo_call ''prompts/get'' ''name'' ''greet'') =
     \<lparr>resp_JSONRPC = ''2.0'', resp_Result = None,
      resp_Error = Some \<lparr>Code = - 32603, Message = ''Failed to get prompt'',
                         Data = Some (JStr ''backend unavailable'')\<rparr>,
      resp_ID = Some (JNum (IntLit 1))\<rparr>"
proof -
  have a: "map_of (resourceHandlers (registry (state demo_setup))) ''store://menu'' = Some failing_resource"
    by (simp add: demo_server_defs Let_def)
  have b: "Unmarshal_params set_ReadResourceParams_field zero_ReadResourceParams
             (req_Params (demo_call ''resources/read'' ''uri'' ''store://menu''))
           = Inr \<lparr>read_URI = ''store://menu''\<rparr>"
    by (simp add: demo_call_def Unmarshal_params_def set_ReadResourceParams_field_def
        zero_ReadResourceParams_def decode_defs)
  have c: "map_of (promptHandlers (registry (state demo_setup))) ''greet'' = Some failing_prompt"
    by (simp add: demo_server_defs Let_def)
  have d: "Unmarshal_params set_GetPromptParams_field zero_GetPromptParams
             (req_Params (demo_call ''prompts/get'' ''name'' ''greet''))
           = Inr \<lparr>get_Name = ''greet'', get_Arguments = None\<rparr>"
    by (simp add: demo_call_def Unmarshal_params_def set_GetPromptParams_field_def
        zero_GetPromptParams_def decode_defs)
  have j: "req_JSONRPC (demo_call m k x) = ''2.0''" for m k x
    by (simp add: demo_call_def)
  show ?thesis
    using read_failure_is_internal_error[OF demo_setup_inv
          j[of "''resources/read''" "''uri''" "''store://menu''"],
        where G = demo_env and p = "\<lparr>read_URI = ''store://menu''\<rparr>"
          and rhandler = failing_resource and res = None and msg = "''backend unavailable''"]
      read_failure_is_internal_error[OF demo_setup_inv
          j[of "''prompts/get''" "''name''" "''greet''"],
        where G = demo_env and q = "\<lparr>get_Name = ''greet'', get_Arguments = None\<rparr>"
          and phandler = failing_prompt and res = None and msg = "''backend unavailable''"]
      a b c d
    by (simp add: demo_call_def MethodResourcesRead_def MethodPromptsGet_def demo_server_def
        failing_resource_def failing_prompt_def NewErrorResponse_def NewResponse_def
        NewInternalError_def ErrorInternal_def)
qed

section \<open>Listing what is registered\<close>

lemma keys_register_all:
  "fst ` set (tools (register_all as r)) = fst ` set (tools r) \<union> set (tool_names as)"
  "fst ` set (resources (register_all as r)) = fst ` set (resources r) \<union> set (resource_uris as)"
  "fst ` set (prompts (register_all as r)) = fst ` set (prompts r) \<union> set (prompt_names as)"
proof (induction as arbitrary: r)
  case Nil
  {
    case 1 show ?case by simp
  next
    case 2 show ?case by simp
  next
    case 3 show ?case by simp
  }
next
  case (Cons a as)
  {
    case 1 show ?case
      by (cases a) (auto simp: Cons.IH RegisterTool_def RegisterResource_def RegisterPrompt_def keys_update)
  next
    case 2 show ?case
      by (cases a) (auto simp: Cons.IH RegisterTool_def RegisterResource_def RegisterPrompt_def keys_update)
  next
    case 3 show ?case
      by (cases a) (auto simp: Cons.IH RegisterTool_def RegisterResource_def RegisterPrompt_def keys_update)
  }
qed

lemma keys_registered:
  defines "r \<equiv> \<lambda>info instr as. register_all as (NewRegistry info instr)"
  shows "fst ` set (tools (r info instr as)) = set (tool_names as)"
    and "fst ` set (resources (r info instr as)) = set (resource_uris as)"
    and "fst ` set (prompts (r info instr as)) = set (prompt_names as)"
  unfolding r_def by (simp_all add: keys_register_all) (simp_all add: NewRegistry_def)

lemma listing:
  assumes "visits_once G m" and "keyed name m" and "fst ` set m = K"
  shows "length (range_values G m) = card K \<and> set (map name (range_values G m)) = K"
proof -
  have "length m = card (set (map fst m))"
    using assms(2) by (simp add: keyed_def distinct_card del: set_map)
  then show ?thesis
    using assms by (simp add: length_range_values names_range_values del: set_map) simp
qed

lemma empty_store: "fst ` set m = set ks \<Longrightarrow> (m = []) = (ks = [])"
  by (cases m; cases ks) auto

text \<open>
  C8, as the code has it. Let a server be wired after a sequence of registrations. Each
  list handler returns one entry per distinct registered name (URI, prompt name), N of
  them, under exactly the registered names, in the order of the visit. A request for the
  list is answered by that result when N is at least one; when nothing of the kind is
  registered the method is not wired and the request is answered by MethodNotFound.
\<close>

theorem lists_return_registered:
  fixes G :: goenv and regs :: "registration list" and name version :: string
    and "is" :: "string list"
  defines "s \<equiv> registerHandlers G
                  (srv_register_all regs (NewServer name version (map WithInstructions is)))"
  defines "r \<equiv> registry (state s)"
  defines "missing \<equiv> \<lambda>i m. NewErrorResponse i
              (NewMethodNotFoundError (''Method '' @ [CHR 0x27] @ m @ [CHR 0x27] @ '' not found'') None)"
  assumes "visits_once G (tools r)" and "visits_once G (resources r)"
    and "visits_once G (prompts r)" and "req_JSONRPC req = ''2.0''"
  shows "(\<exists>ts. handleToolsList G r (req_Params req) = (Some (encode_ToolListResult ts), None) \<and>
            length ts = card (set (tool_names regs)) \<and>
            set (map tool_Name ts) = set (tool_names regs) \<and>
            (req_Method req = MethodToolsList \<longrightarrow>
               HandleRequest (rpcServer s) (state s) req =
                 (if tool_names regs = [] then missing (req_ID req) MethodToolsList
                  else NewSuccessResponse (req_ID req) (Some (encode_ToolListResult ts))))) \<and>
         (\<exists>rs. handleResourcesList G r (req_Params req) = (Some (encode_ListResourcesResult rs), None) \<and>
            length rs = card (set (resource_uris regs)) \<and>
            set (map res_URI rs) = set (resource_uris regs) \<and>
            (req_Method req = MethodResourcesList \<longrightarrow>
               HandleRequest (rpcServer s) (state s) req =
                 (if resource_uris regs = [] then missing (req_ID req) MethodResourcesList
                  else NewSuccessResponse (req_ID req) (Some (encode_ListResourcesResult rs))))) \<and>
         (\<exists>ps. handlePromptsList G r (req_Params req) = (Some (encode_ListPromptsResult ps), None) \<and>
            length ps = card (set (prompt_names regs)) \<and>
            set (map prompt_Name ps) = set (prompt_names regs) \<and>
            (req_Method req = MethodPromptsList \<longrightarrow>
               HandleRequest (rpcServer s) (state s) req =
                 (if prompt_names regs = [] then missing (req_ID req) MethodPromptsList
                  else NewSuccessResponse (req_ID req) (Some (encode_ListPromptsResult ps)))))"
proof -
  let ?s0 = "srv_register_all regs (NewServer name version (map WithInstructions is))"
  let ?info = "\<lparr>ci_Name = name, ci_Version = version\<rparr>"
  have fresh: "rpcServer ?s0 = rpc_NewServer"
    by (simp add: srv_register_all_fields NewServer_fresh)
  have r0: "registry (state ?s0) = register_all regs (NewRegistry ?info [])"
    by (simp add: srv_register_all_fields NewServer_fresh)
  have r: "r = register_all regs (NewRegistry ?info [])"
    unfolding r_def s_def by (simp add: registerHandlers_registry r0)
  have st: "registry (state s) = r"
    by (simp add: r_def)
  have keyed: "registry_keyed r"
    unfolding r by (intro registry_keyed_register_all registry_keyed_New)
  have kt: "fst ` set (tools r) = set (tool_names regs)"
    and kr: "fst ` set (resources r) = set (resource_uris regs)"
    and kp: "fst ` set (prompts r) = set (prompt_names regs)"
    unfolding r by (rule keys_registered)+
  note w = wired_methods[OF fresh, of G, folded s_def, unfolded r0, folded r]
  show ?thesis
  proof -
    let ?ts = "range_values G (tools r)"
    let ?rs = "range_values G (resources r)"
    let ?ps = "range_values G (prompts r)"
    have lt: "length ?ts = card (set (tool_names regs)) \<and> set (map tool_Name ?ts) = set (tool_names regs)"
      using assms(4) keyed kt by (intro listing) (simp_all add: registry_keyed_def)
    have lr: "length ?rs = card (set (resource_uris regs)) \<and>
              set (map res_URI ?rs) = set (resource_uris regs)"
      using assms(5) keyed kr by (intro listing) (simp_all add: registry_keyed_def)
    have lp: "length ?ps = card (set (prompt_names regs)) \<and>
              set (map prompt_Name ?ps) = set (prompt_names regs)"
      using assms(6) keyed kp by (intro listing) (simp_all add: registry_keyed_def)
    have et: "(tools r = []) = (tool_names regs = [])"
      and er: "(resources r = []) = (resource_uris regs = [])"
      and ep: "(prompts r = []) = (prompt_names regs = [])"
      using kt kr kp by (simp_all add: empty_store)
    have qt: "HandleRequest (rpcServer s) (state s) req =
                 (if tool_names regs = [] then missing (req_ID req) MethodToolsList
                  else NewSuccessResponse (req_ID req) (Some (encode_ToolListResult ?ts)))"
      if m: "req_Method req = MethodToolsList"
    proof (cases "tool_names regs = []")
      case True
      with w(1) et have "handlers (rpcServer s) MethodToolsList = None" by simp
      from HandleRequest_no_handler[OF assms(7) m _ this] True show ?thesis
        by (simp add: missing_def MethodToolsList_def)
    next
      case False
      with w(1) et have "handlers (rpcServer s) MethodToolsList =
                           Some (\<lambda>st. handleToolsList G (registry st))" by simp
      from HandleRequest_handler[OF assms(7) m _ this] False show ?thesis
        by (simp add: MethodToolsList_def handleToolsList_def st)
    qed
    have qr: "HandleRequest (rpcServer s) (state s) req =
                 (if resource_uris regs = [] then missing (req_ID req) MethodResourcesList
                  else NewSuccessResponse (req_ID req) (Some (encode_ListResourcesResult ?rs)))"
      if m: "req_Method req = MethodResourcesList"
    proof (cases "resource_uris regs = []")
      case True
      with w(3) er have "handlers (rpcServer s) MethodResourcesList = None" by simp
      from HandleRequest_no_handler[OF assms(7) m _ this] True show ?thesis
        by (simp add: missing_def MethodResourcesList_def)
    next
      case False
      with w(3) er have "handlers (rpcServer s) MethodResourcesList =
                           Some (\<lambda>st. handleResourcesList G (registry st))" by simp
      from HandleRequest_handler[OF assms(7) m _ this] False show ?thesis
        by (simp add: MethodResourcesList_def handleResourcesList_def st)
    qed
    have qp: "HandleRequest (rpcServer s) (state s) req =
                 (if prompt_names regs = [] then missing (req_ID req) MethodPromptsList
                  else NewSuccessResponse (req_ID req) (Some (encode_ListPromptsResult ?ps)))"
      if m: "req_Method req = MethodPromptsList"
    proof (cases "prompt_names regs = []")
      case True
      with w(5) ep have "handlers (rpcServer s) MethodPromptsList = None" by simp
      from HandleRequest_no_handler[OF assms(7) m _ this] True show ?thesis
        by (simp add: missing_def MethodPromptsList_def)
    next
      case False
      with w(5) ep have "handlers (rpcServer s) MethodPromptsList =
                           Some (\<lambda>st. handlePromptsList G (registry st))" by simp
      from HandleRequest_handler[OF assms(7) m _ this] False show ?thesis
        by (simp add: MethodPromptsList_def handlePromptsList_def st)
    qed
    have a: "\<exists>ts. handleToolsList G r (req_Params req) = (Some (encode_ToolListResult ts), None) \<and>
            length ts = card (set (tool_names regs)) \<and>
            set (map tool_Name ts) = set (tool_names regs) \<and>
            (req_Method req = MethodToolsList \<longrightarrow>
               HandleRequest (rpcServer s) (state s) req =
                 (if tool_names regs = [] then missing (req_ID req) MethodToolsList
                  else NewSuccessResponse (req_ID req) (Some (encode_ToolListResult ts))))"
      using lt qt by (intro exI[of _ ?ts]) (simp add: handleToolsList_def)
    have b: "\<exists>rs. handleResourcesList G r (req_Params req) = (Some (encode_ListResourcesResult rs), None) \<and>
            length rs = card (set (resource_uris regs)) \<and>
            set (map res_URI rs) = set (resource_uris regs) \<and>
            (req_Method req = MethodResourcesList \<longrightarrow>
               HandleRequest (rpcServer s) (state s) req =
                 (if resource_uris regs = [] then missing (req_ID req) MethodResourcesList
                  else NewSuccessResponse (req_ID req) (Some (encode_ListResourcesResult rs))))"
      using lr qr by (intro exI[of _ ?rs]) (simp add: handleResourcesList_def)
    have c: "\<exists>ps. handlePromptsList G r (req_Params req) = (Some (encode_ListPromptsResult ps), None) \<and>
            length ps = card (set (prompt_names regs)) \<and>
            set (map prompt_Name ps) = set (prompt_names regs) \<and>
            (req_Method req = MethodPromptsList \<longrightarrow>
               HandleRequest (rpcServer s) (state s) req =
                 (if prompt_names regs = [] then missing (req_ID req) MethodPromptsList
                  else NewSuccessResponse (req_ID req) (Some (encode_ListPromptsResult ps))))"
      using lp qp by (intro exI[of _ ?ps]) (simp add: handlePromptsList_def)
    from a b c show ?thesis by (intro conjI)
  qed
qed

theorem lists_return_registered_witness:
  "\<exists>ts. length ts = 2 \<and> set (map tool_Name ts) = {''ping'', ''stock''} \<and>
      HandleRequest
        (rpcServer (registerHandlers demo_env
           (srv_register_all demo_regs (NewServer ''mcp-server-store'' ''0.1.0'' (map WithInstructions [])))))
        (state (registerHandlers demo_env
           (srv_register_all demo_regs (NewServer ''mcp-server-store'' ''0.1.0'' (map WithInstructions [])))))
        (demo_list ''tools/list'')
      = NewSuccessResponse (Some (JNum (IntLit 1))) (Some (encode_ToolListResult ts))"
proof -
  have v: "visits_once demo_env m" for m :: "(string \<times> 'v) list"
    by (simp add: visits_once_def demo_env_def)
  have j: "req_JSONRPC (demo_list ''tools/list'') = ''2.0''"
    by (simp add: demo_list_def)
  have n: "tool_names demo_regs = [''ping'', ''stock'', ''ping'']"
    by (simp add: demo_regs_def PingTool_def stock_tool_def)
  have c: "card (set (tool_names demo_regs)) = 2"
    by (simp add: n card_insert_if)
  from lists_return_registered[OF v v v j, of demo_regs "''mcp-server-store''" "''0.1.0''" "[]"]
  obtain ts where "length ts = card (set (tool_names demo_regs))"
    and "set (map tool_Name ts) = set (tool_names demo_regs)"
    and "req_Method (demo_list ''tools/list'') = MethodToolsList \<longrightarrow>
      HandleRequest
        (rpcServer (registerHandlers demo_env
           (srv_register_all demo_regs (NewServer ''mcp-server-store'' ''0.1.0'' (map WithInstructions [])))))
        (state (registerHandlers demo_env
           (srv_register_all demo_regs (NewServer ''mcp-server-store'' ''0.1.0'' (map WithInstructions [])))))
        (demo_list ''tools/list'')
      = (if tool_names demo_regs = []
         then NewErrorResponse (req_ID (demo_list ''tools/list''))
                (NewMethodNotFoundError
                   (''Method '' @ [CHR 0x27] @ MethodToolsList @ [CHR 0x27] @ '' not found'') None)
         else NewSuccessResponse (req_ID (demo_list ''tools/list'')) (Some (encode_ToolListResult ts)))"
    by blast
  then show ?thesis
    unfolding c by (intro exI[of _ ts]) (auto simp: n demo_list_def MethodToolsList_def)
qed

text \<open>
  C8 as stated fails when nothing is registered: the list of tools has no entry, and the
  request for it is answered by an error, not by a result with an empty list.
\<close>

theorem list_without_tools_counterexample:
  "tool_names [] = [] \<and>
   HandleRequest (rpcServer bare_server) (state bare_server) (demo_list ''tools/list'') =
     \<lparr>resp_JSONRPC = ''2.0'', resp_Result = None,
      resp_Error = Some \<lparr>Code = - 32601,
                         Message = ''Method '' @ [CHR 0x27] @ ''tools/list'' @ [CHR 0x27] @ '' not found'',
                         Data = None\<rparr>,
      resp_ID = Some (JNum (IntLit 1))\<rparr>"
proof -
  have "handlers (rpcServer bare_server) ''tools/list'' = None"
    by (simp add: bare_server_def registerHandlers_def NewServer_def NewRegistry_def Let_def
        buildCapabilities_def zero_ServerCapabilities_def RegisterMethod_def rpc_NewServer_def
        method_defs)
  then show ?thesis
    by (simp add: HandleRequest_def Validate_def demo_list_def NewErrorResponse_def NewResponse_def
        NewMethodNotFoundError_def ErrorMethodNotFound_def)
qed

section \<open>Writing a response and reading it back\<close>

lemma response_keys:
  "same_key ''jsonrpc'' ''jsonrpc''"
  "\<not> same_key ''result'' ''jsonrpc''" "same_key ''result'' ''result''"
  "\<not> same_key ''error'' ''jsonrpc''" "\<not> same_key ''error'' ''result''" "same_key ''error'' ''error''"
  "\<not> same_key ''id'' ''jsonrpc''" "\<not> same_key ''id'' ''result''" "\<not> same_key ''id'' ''error''"
  "same_key ''id'' ''id''"
  by (simp_all add: same_key_def lower_def)

lemma error_keys:
  "same_key ''code'' ''code''"
  "\<not> same_key ''message'' ''code''" "same_key ''message'' ''message''"
  "\<not> same_key ''data'' ''code''" "\<not> same_key ''data'' ''message''" "same_key ''data'' ''data''"
  by (simp_all add: same_key_def lower_def)

lemma decode_int_sint: "decode_int tag (JNum (IntLit (sint c))) old = Inr c"
  using sint_ge[of c] sint_lt[of c] by (simp add: decode_int_def)

lemma Error_round_trip:
  assumes "decoded G (Data e)"
  shows "decode_struct (set_Error_field G) zero_Error (encode_Error e) = Inr e"
proof (cases "Data e")
  case None
  then show ?thesis
    by (simp add: decode_struct_def encode_Error_def omitempty_def set_Error_field_def error_keys
        decode_int_sint decode_string_def zero_Error_def)
next
  case (Some d)
  with assms have "decode_iface G d = Inr (Some d)"
    by (simp add: decode_iface_decoded)
  with Some show ?thesis
    by (simp add: decode_struct_def encode_Error_def omitempty_def set_Error_field_def error_keys
        decode_int_sint decode_string_def zero_Error_def)
qed

lemma Response_round_trip:
  assumes "decoded_Response G r"
  shows "decode_struct (set_Response_field G) zero_Response (encode_Response r) = Inr r"
proof -
  have res: "resp_Result r = Some v \<Longrightarrow> decode_iface G v = Inr (Some v)" for v
    using assms by (simp add: decoded_Response_def decode_iface_decoded)
  have ident: "resp_ID r = Some v \<Longrightarrow> decode_iface G v = Inr (Some v)" for v
    using assms by (simp add: decoded_Response_def decode_iface_decoded)
  have err: "resp_Error r = Some e \<Longrightarrow>
               decode_struct (set_Error_field G) zero_Error (encode_Error e) = Inr e" for e
    using assms by (simp add: decoded_Response_def Error_round_trip)
  have obj: "encode_Error e \<noteq> JNull" for e
    by (simp add: encode_Error_def)
  show ?thesis
    by (cases "resp_Result r"; cases "resp_Error r"; cases "resp_ID r")
       (simp_all add: decode_struct_def[of "set_Response_field G"] encode_Response_def
          omitempty_def set_Response_field_def response_keys decode_string_def zero_Response_def
          res ident err obj)
qed

text \<open>
  C9, as the code has it. Take a response whose result, id and error data are each nil or
  a value of the kind that decoding into an \<^verbatim>\<open>interface{}\<close> produces: not
  \<^verbatim>\<open>null\<close>, its numbers float64 and its maps keyed by strings. Decoding the document
  written for it gives the response back, with a result only, an error only, and an
  error with or without data; and so does decoding the line written for it, whenever the
  JSON parser returns for that line the document that the printer wrote.
\<close>

theorem response_round_trip:
  assumes "decoded_Response G r"
  shows "decode_struct (set_Response_field G) zero_Response (encode_Response r) = Inr r \<and>
         (parse_text G (Marshal_Response G r @ [CHR 0x0A]) = Some (encode_Response r) \<longrightarrow>
            Unmarshal_Response G (Marshal_Response G r @ [CHR 0x0A]) = Inr r)"
  using assms by (simp add: Unmarshal_Response_def Response_round_trip)

lemmas struct_defs =
  struct_result_response_def encode_ToolListResult_def encode_Tool_def encode_InputSchema_def
  stock_tool_def omit_string_def

lemma demo_response_texts:
  "Marshal_Response demo_env error_response = text_read_error"
  "Marshal_Response demo_env nope_response = text_nope_answer"
  "Marshal_Response demo_env null_result_response = text_null_result"
  "Marshal_Response demo_env big_id_response = text_big_id_response"
  "Marshal_Response demo_env struct_result_response = text_struct_result"
  by (simp_all add: Marshal_Response_def struct_defs error_response_def nope_response_def
      null_result_response_def big_id_response_def NewErrorResponse_def NewSuccessResponse_def
      NewResponse_def NewInternalError_def ErrorInternal_def NewMethodNotFoundError_def
      ErrorMethodNotFound_def encode_Response_def encode_Error_def omitempty_def
      demo_env_def wire_def)

lemma demo_response_parse:
  "parse_text demo_env (text_read_error @ [CHR 0x0A]) = Some (encode_Response error_response)"
  "parse_text demo_env (text_nope_answer @ [CHR 0x0A]) = Some (encode_Response nope_response)"
  "parse_text demo_env (text_null_result @ [CHR 0x0A]) = Some (encode_Response null_result_response)"
  "parse_text demo_env (text_big_id_response @ [CHR 0x0A]) = Some (encode_Response big_id_response)"
  "parse_text demo_env (text_struct_result @ [CHR 0x0A]) = Some (encode_Response struct_result_response)"
  by (simp_all add: struct_defs error_response_def nope_response_def null_result_response_def
      big_id_response_def NewErrorResponse_def NewSuccessResponse_def NewResponse_def
      NewInternalError_def ErrorInternal_def NewMethodNotFoundError_def ErrorMethodNotFound_def
      encode_Response_def encode_Error_def omitempty_def demo_env_def wire_def text_defs)

theorem response_round_trip_witness:
  "valid_Response error_response \<and>
   Marshal_Response demo_env error_response = text_read_error \<and>
   Unmarshal_Response demo_env (text_read_error @ [CHR 0x0A]) = Inr error_response \<and>
   valid_Response nope_response \<and>
   Marshal_Response demo_env nope_response = text_nope_answer \<and>
   Unmarshal_Response demo_env (text_nope_answer @ [CHR 0x0A]) = Inr nope_response"
proof -
  have p: "decoded_Response demo_env error_response"
    by (simp add: decoded_Response_def decoded_def error_response_def NewErrorResponse_def
        NewResponse_def NewInternalError_def)
  have q: "decoded_Response demo_env nope_response"
    by (simp add: decoded_Response_def decoded_def nope_response_def NewErrorResponse_def
        NewResponse_def NewMethodNotFoundError_def float64_of_small demo_env_fields)
  have v: "valid_Response error_response" "valid_Response nope_response"
    by (simp_all add: valid_Response_def error_response_def nope_response_def
        NewErrorResponse_def NewResponse_def)
  from response_round_trip[OF p] response_round_trip[OF q] v show ?thesis
    by (simp add: demo_response_texts demo_response_parse)
qed

text \<open>
  C9 as stated fails for a response with a result only whose result is a non-nil value that
  marshals to \<^verbatim>\<open>null\<close>: the line carries \<^verbatim>\<open>"result":null\<close>, and reading it
  back leaves the result nil. It fails as well for a response whose id is an integer that
  no float64 holds: reading it back gives the nearest float64. And it fails for a
  response whose result is a struct: reading it back gives a map, which is written with
  its keys in sorted order, not in the order of the fields.
\<close>

theorem null_result_round_trip_counterexample:
  "valid_Response null_result_response \<and>
   Marshal_Response demo_env null_result_response = text_null_result \<and>
   Unmarshal_Response demo_env (text_null_result @ [CHR 0x0A])
     = Inr (NewResponse (Some (JNum (IntLit 1))) None None) \<and>
   NewResponse (Some (JNum (IntLit 1))) None None \<noteq> null_result_response \<and>
   valid_Response big_id_response \<and>
   Marshal_Response demo_env big_id_response = text_big_id_response \<and>
   Unmarshal_Response demo_env (text_big_id_response @ [CHR 0x0A])
     = Inr (NewSuccessResponse (Some (JNum (IntLit 9007199254740992))) (Some (JObj []))) \<and>
   NewSuccessResponse (Some (JNum (IntLit 9007199254740992))) (Some (JObj [])) \<noteq> big_id_response \<and>
   valid_Response struct_result_response \<and>
   Marshal_Response demo_env struct_result_response = text_struct_result \<and>
   Unmarshal_Response demo_env (text_struct_result @ [CHR 0x0A])
     = Inr (NewSuccessResponse (Some (JStr ''a''))
              (Some (JObj [(''tools'',
                 JArr [JObj [(''inputSchema'', JObj [(''type'', JStr ''object'')]),
                             (''name'', JStr ''stock'')]])]))) \<and>
   NewSuccessResponse (Some (JStr ''a''))
     (Some (JObj [(''tools'',
        JArr [JObj [(''inputSchema'', JObj [(''type'', JStr ''object'')]),
                    (''name'', JStr ''stock'')]])]))
     \<noteq> struct_result_response"
proof -
  have sorted: "sort_key fst [(''name'', JStr ''stock''), (''inputSchema'', JObj [(''type'', JStr ''object'')])]
                = [(''inputSchema'', JObj [(''type'', JStr ''object'')]), (''name'', JStr ''stock'')]"
    by code_simp
  have d: "decode_struct (set_Response_field demo_env) zero_Response
             (encode_Response struct_result_response)
           = Inr (NewSuccessResponse (Some (JStr ''a''))
              (Some (JObj [(''tools'',
                 JArr [JObj [(''inputSchema'', JObj [(''type'', JStr ''object'')]),
                             (''name'', JStr ''stock'')]])])))"
    using sorted
    by (simp add: struct_defs NewSuccessResponse_def NewResponse_def
        encode_Response_def omitempty_def decode_struct_def set_Response_field_def response_keys
        decode_string_def decode_iface_def zero_Response_def)
  have a: "decode_struct (set_Response_field demo_env) zero_Response
             (encode_Response null_result_response)
           = Inr (NewResponse (Some (JNum (IntLit 1))) None None)"
    by (simp add: null_result_response_def NewSuccessResponse_def NewResponse_def
        encode_Response_def omitempty_def decode_struct_def set_Response_field_def response_keys
        decode_string_def decode_iface_def zero_Response_def float64_of_small demo_env_fields)
  have b: "decode_struct (set_Response_field demo_env) zero_Response
             (encode_Response big_id_response)
           = Inr (NewSuccessResponse (Some (JNum (IntLit 9007199254740992))) (Some (JObj [])))"
    by (simp add: big_id_response_def NewSuccessResponse_def NewResponse_def
        encode_Response_def omitempty_def decode_struct_def set_Response_field_def response_keys
        decode_string_def decode_iface_def zero_Response_def float64_of_big demo_env_fields)
  have c: "valid_Response null_result_response" "valid_Response big_id_response"
    "NewResponse (Some (JNum (IntLit 1))) None None \<noteq> null_result_response"
    "NewSuccessResponse (Some (JNum (IntLit 9007199254740992))) (Some (JObj [])) \<noteq> big_id_response"
    by (simp_all add: valid_Response_def null_result_response_def big_id_response_def
        NewSuccessResponse_def NewResponse_def)
  have e: "valid_Response struct_result_response"
    "NewSuccessResponse (Some (JStr ''a''))
       (Some (JObj [(''tools'',
          JArr [JObj [(''inputSchema'', JObj [(''type'', JStr ''object'')]),
                      (''name'', JStr ''stock'')]])]))
     \<noteq> struct_result_response"
    by (simp_all add: valid_Response_def struct_defs NewSuccessResponse_def NewResponse_def)
  show ?thesis
    using a b c d e
    by (simp add: Unmarshal_Response_def demo_response_texts demo_response_parse)
qed

section \<open>Further facts about the wired server\<close>

text \<open>Every server built by \<^verbatim>\<open>NewServer\<close> and registrations satisfies the invariant.\<close>

lemma built_server_inv:
  "registry_inv (registry (state (srv_register_all regs (NewServer name version (map WithInstructions is)))))"
  by (simp add: srv_register_all_fields NewServer_fresh registry_inv_register_all registry_inv_New)

text \<open>
  The spec's scenario: the ping tool is registered, and a \<^verbatim>\<open>tools/call\<close> request for
  it with id 1 is answered by the text content \<^verbatim>\<open>pong\<close>.
\<close>

lemma ping_scenario:
  "HandleRequest (rpcServer demo_server) (state demo_server) (demo_call ''tools/call'' ''name'' ''ping'') =
     \<lparr>resp_JSONRPC = ''2.0'',
      resp_Result = Some (JObj [(''content'', JArr [JObj [(''type'', JStr ''text''),
                                                         (''text'', JStr ''pong'')]])]),
      resp_Error = None, resp_ID = Some (JNum (IntLit 1))\<rparr>"
proof -
  have h: "handlers (rpcServer demo_server) ''tools/call'' =
             Some (\<lambda>st. handleToolsCall demo_env (registry st))"
    by (simp add: demo_server_defs Let_def)
  have r: "map_of (toolHandlers (registry (state demo_server))) ''ping'' = Some PingHandler"
    by (simp add: demo_server_defs Let_def)
  have c: "handleToolsCall demo_env (registry (state demo_server))
             (Some (JObj [(''name'', JStr ''ping'')])) =
           (Some (encode_ToolCallResult
                    \<lparr>result_Content = Some [NewTextContent ''pong''], IsError = False\<rparr>), None)"
    by (simp add: handleToolsCall_def Unmarshal_params_def
        set_ToolCallParams_field_def zero_ToolCallParams_def decode_defs r PingHandler_def)
  show ?thesis
    using HandleRequest_handler[of "demo_call ''tools/call'' ''name'' ''ping''" "''tools/call''"
        "rpcServer demo_server" _ "state demo_server", OF _ _ _ h]
    by (simp add: c demo_call_def NewSuccessResponse_def NewResponse_def encode_ToolCallResult_def
        encode_Content_def NewTextContent_def omit_string_def omit_bool_def)
qed

text \<open>
  A tool handler that returns a nil result and no error is answered by a response whose
  result is a non-nil interface holding a nil pointer.
\<close>

lemma tool_nil_result:
  fixes G :: goenv
  assumes "registry_inv (registry (state s0))"
    and "map_of (toolHandlers (registry (state s0))) T = Some handler"
    and "req_JSONRPC req = ''2.0''" and "req_Method req = MethodToolsCall"
    and "Unmarshal_params (set_ToolCallParams_field G) zero_ToolCallParams (req_Params req) = Inr p"
    and "call_Name p = T"
    and "handler (call_Arguments p) = (None, None)"
  defines "s \<equiv> registerHandlers G s0"
  shows "HandleRequest (rpcServer s) (state s) req = NewSuccessResponse (req_ID req) (Some JNull)"
proof -
  have "tools (registry (state s0)) \<noteq> []"
    using assms(1,2) by (rule stores_nonempty)
  then have h: "handlers (rpcServer s) MethodToolsCall = Some (\<lambda>st. handleToolsCall G (registry st))"
    unfolding s_def by (simp add: wired_some)
  have r: "registry (state s) = registry (state s0)"
    unfolding s_def by (rule registerHandlers_registry)
  have "handleToolsCall G (registry (state s)) (req_Params req) = (Some JNull, None)"
    using assms(2,5,6,7) by (simp add: handleToolsCall_def r)
  then show ?thesis
    using HandleRequest_handler[OF assms(3,4) _ h, of "state s"]
    by (simp add: MethodToolsCall_def)
qed


end
